theory Spec2Isabelle
  imports Complex_Main
begin

section \<open>JavaScript values used by the temperature cron\<close>

text \<open>
  The repository holds four versions of one route, \<^verbatim>\<open>temperatureCron/route.ts\<close>.
  They are referred to by the file they live in:
  \<^item> \<^verbatim>\<open>part_000\<close>: one hour of pre-heating, a warming stage, boundary-proximity
    actuation, every device call retried;
  \<^item> \<^verbatim>\<open>route.ts\<close>: the same cycle, stage detection in descending order, only
    the status read retried;
  \<^item> \<^verbatim>\<open>part_001\<close>: three hours of pre-heating, no warming stage, window-based
    actuation;
  \<^item> \<^verbatim>\<open>part_002\<close>: as \<^verbatim>\<open>part_001\<close> without validation, without the
    day-rollover correction, and without reading the device state.
  A definition without a suffix is shared by all versions that have the function with the
  same text; a suffix \<open>_route\<close>, \<open>_p1\<close>, \<open>_p2\<close> marks a version whose text differs.
\<close>

subsection \<open>Numbers\<close>

text \<open>
  A JavaScript number is a binary64 value. The model keeps the exact value of a finite
  number as a rational (negative zero is identified with zero: the code only compares
  numbers and passes them to \<^verbatim>\<open>setHours\<close>, which do not tell them apart).
\<close>

datatype jsnum = NaN | Num rat | PosInfinity | NegInfinity

definition isNaN :: "jsnum \<Rightarrow> bool" where
  "isNaN x = (x = NaN)"

text \<open>\<^verbatim>\<open>x < k\<close> and \<open>x > k\<close> against an integer literal: false on NaN.\<close>

definition numLess :: "jsnum \<Rightarrow> int \<Rightarrow> bool" where
  "numLess x k = (case x of NaN \<Rightarrow> False | Num r \<Rightarrow> r < of_int k
                   | PosInfinity \<Rightarrow> False | NegInfinity \<Rightarrow> True)"

definition numGreater :: "jsnum \<Rightarrow> int \<Rightarrow> bool" where
  "numGreater x k = (case x of NaN \<Rightarrow> False | Num r \<Rightarrow> of_int k < r
                      | PosInfinity \<Rightarrow> True | NegInfinity \<Rightarrow> False)"

text \<open>\<^verbatim>\<open>x - k\<close> for an integer literal \<open>k\<close>, used on the integer result of \<^verbatim>\<open>getHours\<close>.\<close>

definition numMinus :: "jsnum \<Rightarrow> int \<Rightarrow> jsnum" where
  "numMinus x k = (case x of Num r \<Rightarrow> Num (r - of_int k) | y \<Rightarrow> y)"

text \<open>
  \<^verbatim>\<open>ToIntegerOrInfinity\<close> as the Date setters use it: truncation towards zero of a
  finite number; \<open>None\<close> for NaN and the infinities, on which the setters produce an
  invalid date.
\<close>

definition truncRat :: "rat \<Rightarrow> int" where
  "truncRat r = (if 0 \<le> r then \<lfloor>r\<rfloor> else - \<lfloor>- r\<rfloor>)"

definition finiteInteger :: "jsnum \<Rightarrow> int option" where
  "finiteInteger x = (case x of Num r \<Rightarrow> Some (truncRat r) | _ \<Rightarrow> None)"

subsubsection \<open>Rounding to binary64\<close>

text \<open>\<open>bitLength n\<close> is the number of binary digits of a positive \<open>n\<close>.\<close>

function bitLength :: "int \<Rightarrow> int" where
  "bitLength n = (if n \<le> 0 then 0 else 1 + bitLength (n div 2))"
  by pat_completeness auto
termination
  by (relation "measure nat") auto

definition pow2 :: "int \<Rightarrow> rat" where
  "pow2 k = (if 0 \<le> k then 2 ^ nat k else 1 / 2 ^ nat (- k))"

definition pow10 :: "int \<Rightarrow> rat" where
  "pow10 k = (if 0 \<le> k then 10 ^ nat k else 1 / 10 ^ nat (- k))"

text \<open>The binary exponent \<open>\<lfloor>log\<^sub>2 a\<rfloor>\<close> of a positive rational.\<close>

definition floorLog2 :: "rat \<Rightarrow> int" where
  "floorLog2 a =
     (let (p, q) = quotient_of a;
          d = bitLength p - bitLength q
      in if pow2 d \<le> a then d else d - 1)"

definition roundHalfEven :: "rat \<Rightarrow> int" where
  "roundHalfEven q =
     (let n = \<lfloor>q\<rfloor>; d = q - of_int n
      in if d < 1 / 2 then n else if 1 / 2 < d then n + 1
         else if even n then n else n + 1)"

text \<open>
  Round to nearest, ties to even, with 53 bits of precision, gradual underflow below
  \<open>2\<^sup>-\<^sup>1\<^sup>0\<^sup>2\<^sup>2\<close> and overflow to infinity from \<open>2\<^sup>1\<^sup>0\<^sup>2\<^sup>4\<close>.
\<close>

definition roundDouble :: "rat \<Rightarrow> jsnum" where
  "roundDouble x =
     (if x = 0 then Num 0
      else let a = \<bar>x\<bar>;
               e = max (floorLog2 a) (- 1022);
               u = pow2 (e - 52);
               r = of_int (roundHalfEven (a / u)) * u
           in if pow2 1024 \<le> r then (if x < 0 then NegInfinity else PosInfinity)
              else Num (if x < 0 then - r else r))"

subsubsection \<open>\<^verbatim>\<open>Number(string)\<close>\<close>

text \<open>
  \<^verbatim>\<open>Number\<close> applied to a string (ECMAScript \<^verbatim>\<open>StringToNumber\<close>): surrounding white
  space is dropped; the empty string is 0; a decimal literal may carry a sign, a fraction
  and an exponent; \<^verbatim>\<open>Infinity\<close> may carry a sign; hexadecimal, octal and binary
  literals carry none; anything else is NaN. A \<open>char\<close> is a byte, so of the white space
  characters only those below 256 occur.
\<close>

definition isStrWhiteSpace :: "char \<Rightarrow> bool" where
  "isStrWhiteSpace c = ((of_char c :: nat) \<in> {9, 10, 11, 12, 13, 32, 160})"

definition trimString :: "string \<Rightarrow> string" where
  "trimString s = rev (dropWhile isStrWhiteSpace (rev (dropWhile isStrWhiteSpace s)))"

definition isDecDigit :: "char \<Rightarrow> bool" where
  "isDecDigit c = (c \<in> set ''0123456789'')"

definition digitVal :: "char \<Rightarrow> int" where
  "digitVal c = of_char c - 48"

text \<open>The value of a digit of a literal in radix 16, 8 or 2; \<open>None\<close> if it is none.\<close>

definition radixDigit :: "int \<Rightarrow> char \<Rightarrow> int option" where
  "radixDigit radix c =
     (let v = (if isDecDigit c then Some (digitVal c)
               else if c \<in> set ''abcdef'' then Some (of_char c - 87)
               else if c \<in> set ''ABCDEF'' then Some (of_char c - 55)
               else None)
      in case v of None \<Rightarrow> None | Some d \<Rightarrow> if d < radix then Some d else None)"

fun radixValue :: "int \<Rightarrow> int \<Rightarrow> string \<Rightarrow> int option" where
  "radixValue radix acc [] = Some acc"
| "radixValue radix acc (c # cs) =
     (case radixDigit radix c of None \<Rightarrow> None
      | Some d \<Rightarrow> radixValue radix (acc * radix + d) cs)"

definition decValue :: "string \<Rightarrow> int" where
  "decValue ds = foldl (\<lambda>n c. 10 * n + digitVal c) 0 ds"

definition allDigits :: "string \<Rightarrow> bool" where
  "allDigits ds = (ds \<noteq> [] \<and> list_all isDecDigit ds)"

text \<open>The exponent part that may end a decimal literal; \<open>None\<close> if the rest is no such part.\<close>

definition exponentPart :: "string \<Rightarrow> int option" where
  "exponentPart s =
     (case s of [] \<Rightarrow> Some 0
      | c # cs \<Rightarrow>
          if c = CHR ''e'' \<or> c = CHR ''E'' then
            (case cs of [] \<Rightarrow> None
             | d # ds \<Rightarrow>
                 if d = CHR ''-'' then (if allDigits ds then Some (- decValue ds) else None)
                 else if d = CHR ''+'' then (if allDigits ds then Some (decValue ds) else None)
                 else if allDigits cs then Some (decValue cs) else None)
          else None)"

definition strUnsignedDecimal :: "string \<Rightarrow> rat option" where
  "strUnsignedDecimal s =
     (let ip = takeWhile isDecDigit s;
          r1 = dropWhile isDecDigit s;
          dot = (case r1 of [] \<Rightarrow> False | c # _ \<Rightarrow> c = CHR ''.'');
          fp = (if dot then takeWhile isDecDigit (tl r1) else []);
          r2 = (if dot then dropWhile isDecDigit (tl r1) else r1)
      in if ip = [] \<and> fp = [] then None
         else case exponentPart r2 of None \<Rightarrow> None
              | Some e \<Rightarrow> Some (of_int (decValue (ip @ fp)) * pow10 (e - int (length fp))))"

definition strDecimalLiteral :: "string \<Rightarrow> jsnum" where
  "strDecimalLiteral s =
     (let neg = (case s of [] \<Rightarrow> False | c # _ \<Rightarrow> c = CHR ''-'');
          body = (case s of [] \<Rightarrow> [] | c # cs \<Rightarrow> if c = CHR ''+'' \<or> c = CHR ''-'' then cs else s)
      in if body = ''Infinity'' then (if neg then NegInfinity else PosInfinity)
         else case strUnsignedDecimal body of None \<Rightarrow> NaN
              | Some v \<Rightarrow> roundDouble (if neg then - v else v))"

definition nonDecimalRadix :: "string \<Rightarrow> int option" where
  "nonDecimalRadix s =
     (case s of
        c # x # _ \<Rightarrow>
          if c \<noteq> CHR ''0'' then None
          else if x = CHR ''x'' \<or> x = CHR ''X'' then Some 16
          else if x = CHR ''o'' \<or> x = CHR ''O'' then Some 8
          else if x = CHR ''b'' \<or> x = CHR ''B'' then Some 2
          else None
      | _ \<Rightarrow> None)"

definition jsNumber :: "string \<Rightarrow> jsnum" where
  "jsNumber s =
     (let t = trimString s
      in if t = [] then Num 0
         else case nonDecimalRadix t of
                Some radix \<Rightarrow>
                  (let ds = drop 2 t
                   in if ds = [] then NaN
                      else case radixValue radix 0 ds of None \<Rightarrow> NaN
                           | Some v \<Rightarrow> roundDouble (of_int v))
              | None \<Rightarrow> strDecimalLiteral t)"

subsection \<open>Dates\<close>

text \<open>
  A \<^verbatim>\<open>Date\<close> is its time value: a whole number of milliseconds, or NaN for an invalid
  date. The host's local time zone is taken to be UTC (no offset and no daylight-saving
  transitions), so that a local calendar day is 86400000 ms long and local midnight is the
  time value rounded down to a multiple of it. The limit of \<open>\<plusminus>8.64\<cdot>10\<^sup>1\<^sup>5\<close> ms on time
  values is not modelled.
\<close>

datatype jsdate = InvalidDate | DateAt int

definition msPerMinute :: int where "msPerMinute = 60 * 1000"
definition msPerHour :: int where "msPerHour = 60 * 60 * 1000"
definition msPerDay :: int where "msPerDay = 24 * 60 * 60 * 1000"

definition startOfDay :: "int \<Rightarrow> int" where
  "startOfDay t = t - t mod msPerDay"

text \<open>\<^verbatim>\<open>d.setHours(h, m, 0, 0)\<close> and \<^verbatim>\<open>d.setHours(h)\<close>, returning the date \<open>d\<close> becomes.\<close>

definition setHours4 :: "jsdate \<Rightarrow> jsnum \<Rightarrow> jsnum \<Rightarrow> int \<Rightarrow> int \<Rightarrow> jsdate" where
  "setHours4 d h m s ms =
     (case d of InvalidDate \<Rightarrow> InvalidDate
      | DateAt t \<Rightarrow>
          (case finiteInteger h of None \<Rightarrow> InvalidDate
           | Some hi \<Rightarrow>
               (case finiteInteger m of None \<Rightarrow> InvalidDate
                | Some mi \<Rightarrow>
                    DateAt (startOfDay t + hi * msPerHour + mi * msPerMinute + s * 1000 + ms))))"

definition getHours :: "jsdate \<Rightarrow> jsnum" where
  "getHours d = (case d of InvalidDate \<Rightarrow> NaN
                 | DateAt t \<Rightarrow> Num (of_int ((t mod msPerDay) div msPerHour)))"

definition setHours1 :: "jsdate \<Rightarrow> jsnum \<Rightarrow> jsdate" where
  "setHours1 d h =
     (case d of InvalidDate \<Rightarrow> InvalidDate
      | DateAt t \<Rightarrow>
          (case finiteInteger h of None \<Rightarrow> InvalidDate
           | Some hi \<Rightarrow> DateAt (startOfDay t + hi * msPerHour + t mod msPerHour)))"

text \<open>\<^verbatim>\<open>new Date(d.getTime() + k)\<close>.\<close>

definition plusMs :: "jsdate \<Rightarrow> int \<Rightarrow> jsdate" where
  "plusMs d k = (case d of InvalidDate \<Rightarrow> InvalidDate | DateAt t \<Rightarrow> DateAt (t + k))"

text \<open>Relational operators on dates compare time values and are false on an invalid date.\<close>

definition dateLess :: "jsdate \<Rightarrow> jsdate \<Rightarrow> bool" where
  "dateLess a b = (case a of InvalidDate \<Rightarrow> False
                   | DateAt x \<Rightarrow> (case b of InvalidDate \<Rightarrow> False | DateAt y \<Rightarrow> x < y))"

definition dateLessEq :: "jsdate \<Rightarrow> jsdate \<Rightarrow> bool" where
  "dateLessEq a b = (case a of InvalidDate \<Rightarrow> False
                     | DateAt x \<Rightarrow> (case b of InvalidDate \<Rightarrow> False | DateAt y \<Rightarrow> x \<le> y))"

definition dateGreater :: "jsdate \<Rightarrow> jsdate \<Rightarrow> bool" where
  "dateGreater a b = dateLess b a"

definition dateGreaterEq :: "jsdate \<Rightarrow> jsdate \<Rightarrow> bool" where
  "dateGreaterEq a b = dateLessEq b a"

text \<open>\<^verbatim>\<open>a.getTime() - b.getTime()\<close>; \<open>None\<close> is NaN.\<close>

definition msBetween :: "jsdate \<Rightarrow> jsdate \<Rightarrow> int option" where
  "msBetween a b = (case a of InvalidDate \<Rightarrow> None
                    | DateAt x \<Rightarrow> (case b of InvalidDate \<Rightarrow> None | DateAt y \<Rightarrow> Some (x - y)))"

section \<open>Helpers of the route\<close>

datatype error =
    InvalidTimeString string
  | RetryFailed
  | CollaboratorError string

text \<open>\<^verbatim>\<open>timeString.split(':')\<close>: the fields between colons, at least one.\<close>

fun splitColon :: "string \<Rightarrow> string list" where
  "splitColon [] = [[]]"
| "splitColon (c # cs) =
     (if c = CHR '':'' then [] # splitColon cs
      else (case splitColon cs of [] \<Rightarrow> [[c]] | f # fs \<Rightarrow> (c # f) # fs))"

text \<open>
  \<^verbatim>\<open>createDateWithTime\<close> of \<^verbatim>\<open>part_000\<close> and \<^verbatim>\<open>part_001\<close>. The destructuring
  \<^verbatim>\<open>[hours, minutes]\<close> takes the first two fields; a missing one is \<^verbatim>\<open>undefined\<close>.
\<close>

definition createDateWithTime :: "jsdate \<Rightarrow> string \<Rightarrow> error + jsdate" where
  "createDateWithTime baseDate timeString =
     (case map jsNumber (splitColon timeString) of
        hours # minutes # _ \<Rightarrow>
          if isNaN hours \<or> isNaN minutes \<or> numLess hours 0 \<or> numGreater hours 23
             \<or> numLess minutes 0 \<or> numGreater minutes 59
          then Inl (InvalidTimeString timeString)
          else Inr (setHours4 baseDate hours minutes 0 0)
      | _ \<Rightarrow> Inl (InvalidTimeString timeString))"

text \<open>\<^verbatim>\<open>route.ts\<close>: the same without the range checks.\<close>

definition createDateWithTime_route :: "jsdate \<Rightarrow> string \<Rightarrow> error + jsdate" where
  "createDateWithTime_route baseDate timeString =
     (case map jsNumber (splitColon timeString) of
        hours # minutes # _ \<Rightarrow>
          if isNaN hours \<or> isNaN minutes
          then Inl (InvalidTimeString timeString)
          else Inr (setHours4 baseDate hours minutes 0 0)
      | _ \<Rightarrow> Inl (InvalidTimeString timeString))"

text \<open>
  \<^verbatim>\<open>part_002\<close>: no check at all; \<^verbatim>\<open>hours ?? 0\<close> replaces a missing field by 0 and
  leaves NaN as it is.
\<close>

definition createDateWithTime_p2 :: "jsdate \<Rightarrow> string \<Rightarrow> jsdate" where
  "createDateWithTime_p2 baseDate timeString =
     (case map jsNumber (splitColon timeString) of
        hours # minutes # _ \<Rightarrow> setHours4 baseDate hours minutes 0 0
      | [hours] \<Rightarrow> setHours4 baseDate hours (Num 0) 0 0
      | [] \<Rightarrow> setHours4 baseDate (Num 0) (Num 0) 0 0)"

text \<open>
  \<^verbatim>\<open>addDays\<close>: \<^verbatim>\<open>setDate(getDate() + days)\<close> moves the calendar day and keeps the time
  of day, which on a fixed-offset host is a shift by whole days.
\<close>

definition addDays :: "jsdate \<Rightarrow> int \<Rightarrow> jsdate" where
  "addDays d days = (case d of InvalidDate \<Rightarrow> InvalidDate
                     | DateAt t \<Rightarrow> DateAt (t + days * msPerDay))"

definition isWithinTimeRange :: "jsdate \<Rightarrow> jsdate \<Rightarrow> int \<Rightarrow> bool" where
  "isWithinTimeRange current target rangeMinutes =
     (case msBetween current target of None \<Rightarrow> False
      | Some diff \<Rightarrow> \<bar>diff\<bar> \<le> rangeMinutes * 60 * 1000)"

text \<open>
  \<^verbatim>\<open>retryApiCall\<close> runs an asynchronous call; so do the other effects of the route. An
  action takes the calls made to the outside so far and returns its outcome (an error
  thrown, or a value) with the calls extended by those it made.
\<close>

record eightCredentials =
  eightAccessToken :: string
  eightRefreshToken :: string
  eightUserId :: string

record Token = eightCredentials +
  eightExpiresAtPosix :: jsdate

datatype call =
    SelectProfiles
  | ObtainFreshAccessToken string string
  | UpdateUserToken string Token
  | GetCurrentHeatingStatus Token
  | TurnOnSide Token string
  | TurnOffSide Token string
  | SetHeatingLevel Token string int
  | SetTimeout int

type_synonym 'a action = "call list \<Rightarrow> (error + 'a) \<times> call list"

definition succeed :: "'a \<Rightarrow> 'a action" where
  "succeed v = (\<lambda>tr. (Inr v, tr))"

definition throw :: "error \<Rightarrow> 'a action" where
  "throw e = (\<lambda>tr. (Inl e, tr))"

text \<open>Sequencing of awaited steps: an error thrown by the first skips the second.\<close>

definition andThen :: "'a action \<Rightarrow> ('a \<Rightarrow> 'b action) \<Rightarrow> 'b action" where
  "andThen m f = (\<lambda>tr. case m tr of (Inl e, tr') \<Rightarrow> (Inl e, tr') | (Inr v, tr') \<Rightarrow> f v tr')"

text \<open>\<^verbatim>\<open>try { m } catch (error) { handler(error) }\<close>.\<close>

definition tryCatch :: "'a action \<Rightarrow> (error \<Rightarrow> 'a action) \<Rightarrow> 'a action" where
  "tryCatch m handler =
     (\<lambda>tr. case m tr of (Inl e, tr') \<Rightarrow> handler e tr' | (Inr v, tr') \<Rightarrow> (Inr v, tr'))"

text \<open>A synchronous computation that may throw, inside an action.\<close>

definition fromResult :: "error + 'a \<Rightarrow> 'a action" where
  "fromResult r = (\<lambda>tr. (r, tr))"

text \<open>
  A call to a collaborator: what it answers may depend on every call made before, and the
  call is recorded whether it succeeds or fails.
\<close>

definition perform :: "call \<Rightarrow> (call list \<Rightarrow> error + 'a) \<Rightarrow> 'a action" where
  "perform c answer = (\<lambda>tr. (answer tr, tr @ [c]))"

text \<open>
  \<^verbatim>\<open>retryApiCall\<close>: the loop over \<open>i\<close>, the back-off \<^verbatim>\<open>setTimeout\<close> of
  \<open>1000 \<cdot> 2\<^sup>i\<close> ms between attempts, and the \<^verbatim>\<open>throw new Error("Retry failed")\<close>
  after the loop.
\<close>

function retryLoop :: "'a action \<Rightarrow> int \<Rightarrow> int \<Rightarrow> 'a action" where
  "retryLoop apiCall retries i tr =
     (if i < retries then
        (case apiCall tr of
           (Inr v, tr') \<Rightarrow> (Inr v, tr')
         | (Inl e, tr') \<Rightarrow>
             if i = retries - 1 then (Inl e, tr')
             else retryLoop apiCall retries (i + 1) (tr' @ [SetTimeout (1000 * 2 ^ nat i)]))
      else (Inl RetryFailed, tr))"
  by pat_completeness auto
termination
  by (relation "measure (\<lambda>(apiCall, retries, i, tr). nat (retries - i))") auto

definition retryApiCall :: "'a action \<Rightarrow> int \<Rightarrow> 'a action" where
  "retryApiCall apiCall retries = retryLoop apiCall retries 0"

section \<open>The sleep cycle\<close>

text \<open>
  \<^verbatim>\<open>part_001\<close> and \<^verbatim>\<open>part_002\<close> have a cycle of five boundaries; \<^verbatim>\<open>part_000\<close> and
  \<^verbatim>\<open>route.ts\<close> add \<^verbatim>\<open>warmingTime\<close>.
\<close>

record SleepCycle_p1 =
  preHeatingTime :: jsdate
  bedTime :: jsdate
  midStageTime :: jsdate
  finalStageTime :: jsdate
  wakeupTime :: jsdate

record SleepCycle = SleepCycle_p1 +
  warmingTime :: jsdate

text \<open>A step that may throw, followed by the rest of a synchronous function.\<close>

definition orThrow :: "error + 'a \<Rightarrow> ('a \<Rightarrow> error + 'b) \<Rightarrow> error + 'b" where
  "orThrow r f = (case r of Inl e \<Rightarrow> Inl e | Inr v \<Rightarrow> f v)"

definition createSleepCycle :: "jsdate \<Rightarrow> string \<Rightarrow> string \<Rightarrow> error + SleepCycle" where
  "createSleepCycle baseDate bedTimeStr wakeupTimeStr =
     orThrow (createDateWithTime baseDate bedTimeStr) (\<lambda>preHeatingTime0.
     let preHeatingTime = setHours1 preHeatingTime0 (numMinus (getHours preHeatingTime0) 1)
     in orThrow (createDateWithTime baseDate bedTimeStr) (\<lambda>bedTime.
        orThrow (createDateWithTime baseDate wakeupTimeStr) (\<lambda>wakeupTime0.
        let wakeupTime = (if dateLessEq wakeupTime0 bedTime then addDays wakeupTime0 1
                          else wakeupTime0);
            midStageTime = plusMs bedTime (60 * 60 * 1000);
            finalStageTime = plusMs wakeupTime (- (2 * 60 * 60 * 1000));
            warmingTime = plusMs wakeupTime (- (30 * 60 * 1000))
        in Inr \<lparr>preHeatingTime = preHeatingTime, bedTime = bedTime,
                 midStageTime = midStageTime, finalStageTime = finalStageTime,
                 wakeupTime = wakeupTime, warmingTime = warmingTime\<rparr>)))"

definition createSleepCycle_route :: "jsdate \<Rightarrow> string \<Rightarrow> string \<Rightarrow> error + SleepCycle" where
  "createSleepCycle_route baseDate bedTimeStr wakeupTimeStr =
     orThrow (createDateWithTime_route baseDate bedTimeStr) (\<lambda>preHeatingTime0.
     let preHeatingTime = setHours1 preHeatingTime0 (numMinus (getHours preHeatingTime0) 1)
     in orThrow (createDateWithTime_route baseDate bedTimeStr) (\<lambda>bedTime.
        orThrow (createDateWithTime_route baseDate wakeupTimeStr) (\<lambda>wakeupTime0.
        let wakeupTime = (if dateLessEq wakeupTime0 bedTime then addDays wakeupTime0 1
                          else wakeupTime0);
            midStageTime = plusMs bedTime (60 * 60 * 1000);
            finalStageTime = plusMs wakeupTime (- (120 * 60 * 1000));
            warmingTime = plusMs wakeupTime (- (30 * 60 * 1000))
        in Inr \<lparr>preHeatingTime = preHeatingTime, bedTime = bedTime,
                 midStageTime = midStageTime, finalStageTime = finalStageTime,
                 wakeupTime = wakeupTime, warmingTime = warmingTime\<rparr>)))"

definition createSleepCycle_p1 :: "jsdate \<Rightarrow> string \<Rightarrow> string \<Rightarrow> error + SleepCycle_p1" where
  "createSleepCycle_p1 baseDate bedTimeStr wakeupTimeStr =
     orThrow (createDateWithTime baseDate bedTimeStr) (\<lambda>preHeatingTime0.
     let preHeatingTime = setHours1 preHeatingTime0 (numMinus (getHours preHeatingTime0) 3)
     in orThrow (createDateWithTime baseDate bedTimeStr) (\<lambda>bedTime.
        orThrow (createDateWithTime baseDate wakeupTimeStr) (\<lambda>wakeupTime0.
        let wakeupTime = (if dateLessEq wakeupTime0 bedTime then addDays wakeupTime0 1
                          else wakeupTime0);
            midStageTime = plusMs bedTime (60 * 60 * 1000);
            finalStageTime = plusMs wakeupTime (- (2 * 60 * 60 * 1000))
        in Inr \<lparr>preHeatingTime = preHeatingTime, bedTime = bedTime,
                 midStageTime = midStageTime, finalStageTime = finalStageTime,
                 wakeupTime = wakeupTime\<rparr>)))"

definition createSleepCycle_p2 :: "jsdate \<Rightarrow> string \<Rightarrow> string \<Rightarrow> SleepCycle_p1" where
  "createSleepCycle_p2 baseDate bedTimeStr wakeupTimeStr =
     (let preHeatingTime0 = createDateWithTime_p2 baseDate bedTimeStr;
          preHeatingTime = setHours1 preHeatingTime0 (numMinus (getHours preHeatingTime0) 3);
          bedTime = createDateWithTime_p2 baseDate bedTimeStr;
          wakeupTime0 = createDateWithTime_p2 baseDate wakeupTimeStr;
          wakeupTime = (if dateLessEq wakeupTime0 bedTime then addDays wakeupTime0 1
                        else wakeupTime0);
          midStageTime = plusMs bedTime (60 * 60 * 1000);
          finalStageTime = plusMs wakeupTime (- (2 * 60 * 60 * 1000))
      in \<lparr>preHeatingTime = preHeatingTime, bedTime = bedTime,
           midStageTime = midStageTime, finalStageTime = finalStageTime,
           wakeupTime = wakeupTime\<rparr>)"

definition adjustTimeToCurrentCycle :: "jsdate \<Rightarrow> jsdate \<Rightarrow> jsdate \<Rightarrow> jsdate" where
  "adjustTimeToCurrentCycle cycleStart currentTime timeInCycle =
     (let adjustedTime = (if dateLess timeInCycle cycleStart then addDays timeInCycle 1
                          else timeInCycle)
      in if dateGreater adjustedTime currentTime
            \<and> (case msBetween adjustedTime currentTime of None \<Rightarrow> False
                | Some diff \<Rightarrow> diff > 12 * 60 * 60 * 1000)
         then addDays adjustedTime (- 1)
         else adjustedTime)"

text \<open>
  The \<^verbatim>\<open>adjustedCycle\<close> object that \<^verbatim>\<open>adjustTemperature\<close> builds from
  \<^verbatim>\<open>sleepCycle\<close>, with \<^verbatim>\<open>cycleStart = sleepCycle.preHeatingTime\<close>.
\<close>

definition adjustedCycle :: "jsdate \<Rightarrow> SleepCycle \<Rightarrow> SleepCycle" where
  "adjustedCycle userNow sleepCycle =
     (let cycleStart = preHeatingTime sleepCycle
      in \<lparr>preHeatingTime = adjustTimeToCurrentCycle cycleStart userNow (preHeatingTime sleepCycle),
           bedTime = adjustTimeToCurrentCycle cycleStart userNow (bedTime sleepCycle),
           midStageTime = adjustTimeToCurrentCycle cycleStart userNow (midStageTime sleepCycle),
           finalStageTime = adjustTimeToCurrentCycle cycleStart userNow (finalStageTime sleepCycle),
           wakeupTime = adjustTimeToCurrentCycle cycleStart userNow (wakeupTime sleepCycle),
           warmingTime = adjustTimeToCurrentCycle cycleStart userNow (warmingTime sleepCycle)\<rparr>)"

definition adjustedCycle_p1 :: "jsdate \<Rightarrow> SleepCycle_p1 \<Rightarrow> SleepCycle_p1" where
  "adjustedCycle_p1 userNow sleepCycle =
     (let cycleStart = preHeatingTime sleepCycle
      in \<lparr>preHeatingTime = adjustTimeToCurrentCycle cycleStart userNow (preHeatingTime sleepCycle),
           bedTime = adjustTimeToCurrentCycle cycleStart userNow (bedTime sleepCycle),
           midStageTime = adjustTimeToCurrentCycle cycleStart userNow (midStageTime sleepCycle),
           finalStageTime = adjustTimeToCurrentCycle cycleStart userNow (finalStageTime sleepCycle),
           wakeupTime = adjustTimeToCurrentCycle cycleStart userNow (wakeupTime sleepCycle)\<rparr>)"

section \<open>Stage detection\<close>

text \<open>
  The values of \<^verbatim>\<open>currentSleepStage\<close>: \<^verbatim>\<open>"pre-heating"\<close>, \<^verbatim>\<open>"initial"\<close>,
  \<^verbatim>\<open>"mid"\<close>, \<^verbatim>\<open>"final"\<close>, \<^verbatim>\<open>"warming"\<close> and \<^verbatim>\<open>"outside sleep cycle"\<close>.
\<close>

datatype StageTag = PreHeating | Initial | Mid | Final | Warming | OutsideSleepCycle

text \<open>\<^verbatim>\<open>part_000\<close>: the chain runs from the earliest window to the latest.\<close>

definition currentSleepStage :: "jsdate \<Rightarrow> SleepCycle \<Rightarrow> StageTag" where
  "currentSleepStage userNow c =
     (if dateGreaterEq userNow (preHeatingTime c) \<and> dateLess userNow (bedTime c) then PreHeating
      else if dateGreaterEq userNow (bedTime c) \<and> dateLess userNow (midStageTime c) then Initial
      else if dateGreaterEq userNow (midStageTime c) \<and> dateLess userNow (finalStageTime c) then Mid
      else if dateGreaterEq userNow (finalStageTime c) \<and> dateLess userNow (warmingTime c) then Final
      else if dateGreaterEq userNow (warmingTime c) \<and> dateLess userNow (wakeupTime c) then Warming
      else OutsideSleepCycle)"

text \<open>\<^verbatim>\<open>route.ts\<close>: the chain runs from the latest window to the earliest.\<close>

definition currentSleepStage_route :: "jsdate \<Rightarrow> SleepCycle \<Rightarrow> StageTag" where
  "currentSleepStage_route userNow c =
     (if dateGreaterEq userNow (warmingTime c) \<and> dateLess userNow (wakeupTime c) then Warming
      else if dateGreaterEq userNow (finalStageTime c) \<and> dateLess userNow (warmingTime c) then Final
      else if dateGreaterEq userNow (midStageTime c) \<and> dateLess userNow (finalStageTime c) then Mid
      else if dateGreaterEq userNow (bedTime c) \<and> dateLess userNow (midStageTime c) then Initial
      else if dateGreaterEq userNow (preHeatingTime c) \<and> dateLess userNow (bedTime c) then PreHeating
      else OutsideSleepCycle)"

section \<open>Profiles, collaborators and the run\<close>

text \<open>
  A row of the join of \<^verbatim>\<open>userTemperatureProfile\<close> with \<^verbatim>\<open>users\<close>. The columns
  \<^verbatim>\<open>bedTime\<close> and \<^verbatim>\<open>wakeupTime\<close> of the profile are clock strings; they are named
  \<open>bedTimeStr\<close> and \<open>wakeupTimeStr\<close> here, as the parameters of
  \<^verbatim>\<open>createSleepCycle\<close> they are passed to, since the cycle has fields of the same names.
\<close>

record usersRow = eightCredentials +
  email :: string
  eightTokenExpiresAt :: jsdate

record userTemperatureProfile =
  bedTimeStr :: string
  wakeupTimeStr :: string
  timezoneTZ :: string
  initialSleepLevel :: int
  midStageSleepLevel :: int
  finalSleepLevel :: int

record profileRow =
  users :: usersRow
  userTemperatureProfiles :: userTemperatureProfile

record heatingStatus =
  isHeating :: bool
  heatingLevel :: int

record TestMode =
  enabled :: bool
  currentTime :: jsdate

text \<open>
  The collaborators the route imports and the two ambient inputs it reads. Each
  collaborator answers from the calls made so far. \<open>currentDate\<close> is \<^verbatim>\<open>new Date()\<close>;
  \<open>toLocaleDate now tz\<close> is
  \<^verbatim>\<open>new Date(now.toLocaleString("en-US", { timeZone: tz }))\<close>, the wall clock of the zone
  read back as a host-local date, which throws on an unknown zone.
\<close>

record world =
  selectProfiles :: "call list \<Rightarrow> error + profileRow list"
  obtainFreshAccessToken :: "call list \<Rightarrow> string \<Rightarrow> string \<Rightarrow> error + Token"
  updateUserToken :: "call list \<Rightarrow> string \<Rightarrow> Token \<Rightarrow> error + unit"
  getCurrentHeatingStatus :: "call list \<Rightarrow> Token \<Rightarrow> error + heatingStatus"
  turnOnSide :: "call list \<Rightarrow> Token \<Rightarrow> string \<Rightarrow> error + unit"
  turnOffSide :: "call list \<Rightarrow> Token \<Rightarrow> string \<Rightarrow> error + unit"
  setHeatingLevel :: "call list \<Rightarrow> Token \<Rightarrow> string \<Rightarrow> int \<Rightarrow> error + unit"
  currentDate :: "call list \<Rightarrow> jsdate"
  toLocaleDate :: "jsdate \<Rightarrow> string \<Rightarrow> error + jsdate"

text \<open>\<^verbatim>\<open>testMode?.enabled\<close>.\<close>

definition testEnabled :: "TestMode option \<Rightarrow> bool" where
  "testEnabled testMode = (case testMode of None \<Rightarrow> False | Some t \<Rightarrow> enabled t)"

text \<open>\<^verbatim>\<open>const now = testMode?.enabled ? testMode.currentTime : new Date()\<close>.\<close>

definition currentInstant :: "world \<Rightarrow> TestMode option \<Rightarrow> jsdate action" where
  "currentInstant w testMode =
     (\<lambda>tr. (Inr (case testMode of None \<Rightarrow> currentDate w tr
                  | Some t \<Rightarrow> if enabled t then currentTime t else currentDate w tr), tr))"

definition tokenOf :: "usersRow \<Rightarrow> Token" where
  "tokenOf u = \<lparr>eightAccessToken = eightAccessToken u,
                eightRefreshToken = eightRefreshToken u,
                eightUserId = eightUserId u,
                eightExpiresAtPosix = eightTokenExpiresAt u\<rparr>"

text \<open>The device calls, each recorded with its arguments.\<close>

definition callGetCurrentHeatingStatus :: "world \<Rightarrow> Token \<Rightarrow> heatingStatus action" where
  "callGetCurrentHeatingStatus w token =
     perform (GetCurrentHeatingStatus token) (\<lambda>tr. getCurrentHeatingStatus w tr token)"

definition callTurnOnSide :: "world \<Rightarrow> Token \<Rightarrow> string \<Rightarrow> unit action" where
  "callTurnOnSide w token userId =
     perform (TurnOnSide token userId) (\<lambda>tr. turnOnSide w tr token userId)"

definition callTurnOffSide :: "world \<Rightarrow> Token \<Rightarrow> string \<Rightarrow> unit action" where
  "callTurnOffSide w token userId =
     perform (TurnOffSide token userId) (\<lambda>tr. turnOffSide w tr token userId)"

definition callSetHeatingLevel :: "world \<Rightarrow> Token \<Rightarrow> string \<Rightarrow> int \<Rightarrow> unit action" where
  "callSetHeatingLevel w token userId level =
     perform (SetHeatingLevel token userId level) (\<lambda>tr. setHeatingLevel w tr token userId level)"

text \<open>
  The token refresh of \<^verbatim>\<open>part_000\<close> and \<^verbatim>\<open>part_002\<close>:
  \<^verbatim>\<open>if (!testMode?.enabled && now.getTime() > token.eightExpiresAtPosix)\<close>, then the
  fresh token is obtained and written back to the user's row.
\<close>

definition refreshToken :: "world \<Rightarrow> TestMode option \<Rightarrow> jsdate \<Rightarrow> usersRow \<Rightarrow> Token \<Rightarrow> Token action" where
  "refreshToken w testMode now u token =
     (if \<not> testEnabled testMode \<and> dateGreater now (eightExpiresAtPosix token) then
        andThen (perform (ObtainFreshAccessToken (eightRefreshToken token) (eightUserId token))
                   (\<lambda>tr. obtainFreshAccessToken w tr (eightRefreshToken token) (eightUserId token)))
          (\<lambda>fresh.
             andThen (perform (UpdateUserToken (email u) fresh)
                        (\<lambda>tr. updateUserToken w tr (email u) fresh))
               (\<lambda>_. succeed fresh))
      else succeed token)"

text \<open>
  The status read of \<^verbatim>\<open>part_000\<close> and \<^verbatim>\<open>part_001\<close>: in test mode the fixed state
  \<^verbatim>\<open>{ isHeating: false, heatingLevel: 0 }\<close>, otherwise the retried device call.
\<close>

definition readHeatingStatus :: "world \<Rightarrow> TestMode option \<Rightarrow> Token \<Rightarrow> heatingStatus action" where
  "readHeatingStatus w testMode token =
     (if testEnabled testMode then succeed \<lparr>isHeating = False, heatingLevel = 0\<rparr>
      else retryApiCall (callGetCurrentHeatingStatus w token) 3)"

subsection \<open>\<^verbatim>\<open>part_000\<close>\<close>

text \<open>The condition of the branch that sets a target: some boundary is within 15 minutes.\<close>

definition nearAnyBoundary :: "jsdate \<Rightarrow> SleepCycle \<Rightarrow> bool" where
  "nearAnyBoundary userNow c =
     (isWithinTimeRange userNow (preHeatingTime c) 15
      \<or> isWithinTimeRange userNow (bedTime c) 15
      \<or> isWithinTimeRange userNow (midStageTime c) 15
      \<or> isWithinTimeRange userNow (finalStageTime c) 15
      \<or> isWithinTimeRange userNow (warmingTime c) 15
      \<or> isWithinTimeRange userNow (wakeupTime c) 15)"

text \<open>\<^verbatim>\<open>targetLevel\<close> and \<^verbatim>\<open>sleepStage\<close> as the branch assigns them.\<close>

definition chooseTarget :: "userTemperatureProfile \<Rightarrow> jsdate \<Rightarrow> SleepCycle \<Rightarrow> int \<times> string" where
  "chooseTarget userTempProfile userNow c =
     (let isNearPreHeating = isWithinTimeRange userNow (preHeatingTime c) 15;
          isNearBedTime = isWithinTimeRange userNow (bedTime c) 15;
          isNearMidStage = isWithinTimeRange userNow (midStageTime c) 15;
          isNearFinalStage = isWithinTimeRange userNow (finalStageTime c) 15;
          isNearWarming = isWithinTimeRange userNow (warmingTime c) 15
      in if isNearWarming then (2, ''warming-alarm'')
         else if isNearPreHeating \<or> (isNearBedTime \<and> dateLess userNow (bedTime c))
           then (initialSleepLevel userTempProfile, ''pre-heating'')
         else if isNearBedTime \<or> (isNearMidStage \<and> dateLess userNow (midStageTime c))
           then (initialSleepLevel userTempProfile, ''initial'')
         else if isNearMidStage \<or> (isNearFinalStage \<and> dateLess userNow (finalStageTime c))
           then (midStageSleepLevel userTempProfile, ''mid'')
         else (finalSleepLevel userTempProfile, ''final''))"

text \<open>The actuation: from the computation of the proximity flags to the end of the \<^verbatim>\<open>try\<close> block.\<close>

definition actuate ::
  "world \<Rightarrow> TestMode option \<Rightarrow> Token \<Rightarrow> string \<Rightarrow> userTemperatureProfile \<Rightarrow> jsdate \<Rightarrow> SleepCycle
     \<Rightarrow> heatingStatus \<Rightarrow> unit action" where
  "actuate w testMode token userId userTempProfile userNow c status =
     (if nearAnyBoundary userNow c then
        (let targetLevel = fst (chooseTarget userTempProfile userNow c)
         in andThen
              (if \<not> isHeating status then
                 (if \<not> testEnabled testMode then retryApiCall (callTurnOnSide w token userId) 3
                  else succeed ())
               else succeed ())
              (\<lambda>_. if heatingLevel status \<noteq> targetLevel then
                      (if \<not> testEnabled testMode
                       then retryApiCall (callSetHeatingLevel w token userId targetLevel) 3
                       else succeed ())
                    else succeed ()))
      else if isHeating status \<and> dateGreater userNow (wakeupTime c)
              \<and> \<not> isWithinTimeRange userNow (wakeupTime c) 15 then
        (if \<not> testEnabled testMode then retryApiCall (callTurnOffSide w token userId) 3
         else succeed ())
      else succeed ())"

text \<open>The body of the inner \<^verbatim>\<open>try\<close> for one profile.\<close>

definition processProfile :: "world \<Rightarrow> TestMode option \<Rightarrow> profileRow \<Rightarrow> unit action" where
  "processProfile w testMode profile =
     andThen (currentInstant w testMode) (\<lambda>now.
     andThen (refreshToken w testMode now (users profile) (tokenOf (users profile))) (\<lambda>token.
     let userTempProfile = userTemperatureProfiles profile
     in andThen (fromResult (toLocaleDate w now (timezoneTZ userTempProfile))) (\<lambda>userNow.
        andThen (fromResult (createSleepCycle userNow (bedTimeStr userTempProfile)
                               (wakeupTimeStr userTempProfile))) (\<lambda>sleepCycle.
        andThen (readHeatingStatus w testMode token) (\<lambda>status.
        actuate w testMode token (eightUserId (users profile)) userTempProfile userNow
          (adjustedCycle userNow sleepCycle) status)))))"

text \<open>The loop over the profiles; each body runs inside its own \<^verbatim>\<open>try\<close>/\<^verbatim>\<open>catch\<close>.\<close>

fun forEachProfile :: "(profileRow \<Rightarrow> unit action) \<Rightarrow> profileRow list \<Rightarrow> unit action" where
  "forEachProfile body [] = succeed ()"
| "forEachProfile body (profile # profiles) =
     andThen (body profile) (\<lambda>_. forEachProfile body profiles)"

text \<open>The inner handler logs the error; the outer one logs it and throws it again.\<close>

definition adjustTemperature :: "world \<Rightarrow> TestMode option \<Rightarrow> unit action" where
  "adjustTemperature w testMode =
     tryCatch
       (andThen (perform SelectProfiles (selectProfiles w)) (\<lambda>profiles.
          forEachProfile
            (\<lambda>profile. tryCatch (processProfile w testMode profile) (\<lambda>error. succeed ()))
            profiles))
       (\<lambda>error. throw error)"

subsection \<open>\<^verbatim>\<open>route.ts\<close>\<close>

text \<open>
  \<^verbatim>\<open>targetLevel\<close> starts as the mid-stage level and is overwritten by the priority
  assignment.
\<close>

definition chooseTarget_route :: "userTemperatureProfile \<Rightarrow> bool \<Rightarrow> StageTag \<Rightarrow> int" where
  "chooseTarget_route userTemp isNearWarming stage =
     (if isNearWarming \<or> stage = Warming then 10
      else if stage = Final then finalSleepLevel userTemp
      else if stage = Initial \<or> stage = PreHeating then initialSleepLevel userTemp
      else midStageSleepLevel userTemp)"

definition actuate_route ::
  "world \<Rightarrow> TestMode option \<Rightarrow> Token \<Rightarrow> string \<Rightarrow> userTemperatureProfile \<Rightarrow> jsdate \<Rightarrow> SleepCycle
     \<Rightarrow> unit action" where
  "actuate_route w testMode token userId userTemp userNow c =
     (let isNearWarming = isWithinTimeRange userNow (warmingTime c) 15;
          isNearFinal = isWithinTimeRange userNow (finalStageTime c) 15;
          isNearWakeup = isWithinTimeRange userNow (wakeupTime c) 15;
          stage = currentSleepStage_route userNow c
      in if isNearWarming \<or> isNearWakeup \<or> isNearFinal
            \<or> isWithinTimeRange userNow (midStageTime c) 15
            \<or> isWithinTimeRange userNow (bedTime c) 15
            \<or> isWithinTimeRange userNow (preHeatingTime c) 15 then
           (let targetLevel = chooseTarget_route userTemp isNearWarming stage
            in if \<not> testEnabled testMode then
                 andThen (retryApiCall (callGetCurrentHeatingStatus w token) 3) (\<lambda>status.
                 andThen (if \<not> isHeating status then callTurnOnSide w token userId
                          else succeed ()) (\<lambda>_.
                 if heatingLevel status \<noteq> targetLevel
                 then callSetHeatingLevel w token userId targetLevel
                 else succeed ()))
               else succeed ())
         else if dateGreater userNow (wakeupTime c) \<and> \<not> isNearWakeup then
           (if \<not> testEnabled testMode then callTurnOffSide w token userId else succeed ())
         else succeed ())"

definition processProfile_route :: "world \<Rightarrow> TestMode option \<Rightarrow> profileRow \<Rightarrow> unit action" where
  "processProfile_route w testMode profile =
     andThen (currentInstant w testMode) (\<lambda>now.
     let token = tokenOf (users profile);
         userTemp = userTemperatureProfiles profile
     in andThen (fromResult (toLocaleDate w now (timezoneTZ userTemp))) (\<lambda>userNow.
        andThen (fromResult (createSleepCycle_route userNow (bedTimeStr userTemp)
                               (wakeupTimeStr userTemp))) (\<lambda>sleepCycle.
        actuate_route w testMode token (eightUserId (users profile)) userTemp userNow
          (adjustedCycle userNow sleepCycle))))"

text \<open>Both handlers only log.\<close>

definition adjustTemperature_route :: "world \<Rightarrow> TestMode option \<Rightarrow> unit action" where
  "adjustTemperature_route w testMode =
     tryCatch
       (andThen (perform SelectProfiles (selectProfiles w)) (\<lambda>profiles.
          forEachProfile
            (\<lambda>profile. tryCatch (processProfile_route w testMode profile) (\<lambda>e. succeed ()))
            profiles))
       (\<lambda>e. succeed ())"

subsection \<open>\<^verbatim>\<open>part_001\<close>\<close>

text \<open>
  The four windows and the chain that assigns \<^verbatim>\<open>targetLevel\<close> and \<^verbatim>\<open>sleepStage\<close>;
  \<open>None\<close> is the \<^verbatim>\<open>null\<close> the target starts with.
\<close>

definition isPreHeating :: "jsdate \<Rightarrow> 'a SleepCycle_p1_scheme \<Rightarrow> bool" where
  "isPreHeating userNow c =
     (dateGreaterEq userNow (preHeatingTime c) \<and> dateLess userNow (bedTime c))"

definition isInitial :: "jsdate \<Rightarrow> 'a SleepCycle_p1_scheme \<Rightarrow> bool" where
  "isInitial userNow c =
     (dateGreaterEq userNow (bedTime c) \<and> dateLess userNow (midStageTime c))"

definition isMid :: "jsdate \<Rightarrow> 'a SleepCycle_p1_scheme \<Rightarrow> bool" where
  "isMid userNow c =
     (dateGreaterEq userNow (midStageTime c) \<and> dateLess userNow (finalStageTime c))"

definition isFinal :: "jsdate \<Rightarrow> 'a SleepCycle_p1_scheme \<Rightarrow> bool" where
  "isFinal userNow c =
     (dateGreaterEq userNow (finalStageTime c) \<and> dateLess userNow (wakeupTime c))"

definition chooseTarget_p1 ::
  "userTemperatureProfile \<Rightarrow> jsdate \<Rightarrow> SleepCycle_p1 \<Rightarrow> (int \<times> string) option" where
  "chooseTarget_p1 userTemp userNow c =
     (if isPreHeating userNow c
        then Some (initialSleepLevel userTemp, ''pre-heating (3-hour window)'')
      else if isInitial userNow c then Some (initialSleepLevel userTemp, ''initial'')
      else if isMid userNow c then Some (midStageSleepLevel userTemp, ''mid'')
      else if isFinal userNow c then Some (finalSleepLevel userTemp, ''final'')
      else None)"

definition actuate_p1 ::
  "world \<Rightarrow> TestMode option \<Rightarrow> Token \<Rightarrow> string \<Rightarrow> userTemperatureProfile \<Rightarrow> jsdate \<Rightarrow> SleepCycle_p1
     \<Rightarrow> heatingStatus \<Rightarrow> unit action" where
  "actuate_p1 w testMode token userId userTemp userNow c status =
     (case chooseTarget_p1 userTemp userNow c of
        Some (targetLevel, sleepStage) \<Rightarrow>
          andThen
            (if \<not> isHeating status then
               (if \<not> testEnabled testMode then retryApiCall (callTurnOnSide w token userId) 3
                else succeed ())
             else succeed ())
            (\<lambda>_. if heatingLevel status \<noteq> targetLevel then
                    (if \<not> testEnabled testMode
                     then retryApiCall (callSetHeatingLevel w token userId targetLevel) 3
                     else succeed ())
                  else succeed ())
      | None \<Rightarrow>
          if isHeating status \<and> dateGreater userNow (wakeupTime c) then
            (if \<not> testEnabled testMode then retryApiCall (callTurnOffSide w token userId) 3
             else succeed ())
          else succeed ())"

definition processProfile_p1 :: "world \<Rightarrow> TestMode option \<Rightarrow> profileRow \<Rightarrow> unit action" where
  "processProfile_p1 w testMode profile =
     andThen (currentInstant w testMode) (\<lambda>now.
     let token = tokenOf (users profile);
         userTemp = userTemperatureProfiles profile
     in andThen (fromResult (toLocaleDate w now (timezoneTZ userTemp))) (\<lambda>userNow.
        andThen (fromResult (createSleepCycle_p1 userNow (bedTimeStr userTemp)
                               (wakeupTimeStr userTemp))) (\<lambda>sleepCycle.
        andThen (readHeatingStatus w testMode token) (\<lambda>status.
        actuate_p1 w testMode token (eightUserId (users profile)) userTemp userNow
          (adjustedCycle_p1 userNow sleepCycle) status))))"

text \<open>Both handlers only log: the outer one does not throw the error again.\<close>

definition adjustTemperature_p1 :: "world \<Rightarrow> TestMode option \<Rightarrow> unit action" where
  "adjustTemperature_p1 w testMode =
     tryCatch
       (andThen (perform SelectProfiles (selectProfiles w)) (\<lambda>profiles.
          forEachProfile
            (\<lambda>profile. tryCatch (processProfile_p1 w testMode profile) (\<lambda>error. succeed ()))
            profiles))
       (\<lambda>error. succeed ())"

subsection \<open>\<^verbatim>\<open>part_002\<close>\<close>

definition targetLevel_p2 :: "userTemperatureProfile \<Rightarrow> jsdate \<Rightarrow> SleepCycle_p1 \<Rightarrow> int option" where
  "targetLevel_p2 userTemp userNow c =
     (if isPreHeating userNow c \<or> isInitial userNow c then Some (initialSleepLevel userTemp)
      else if isMid userNow c then Some (midStageSleepLevel userTemp)
      else if isFinal userNow c then Some (finalSleepLevel userTemp)
      else None)"

definition actuate_p2 ::
  "world \<Rightarrow> TestMode option \<Rightarrow> Token \<Rightarrow> string \<Rightarrow> userTemperatureProfile \<Rightarrow> jsdate \<Rightarrow> SleepCycle_p1
     \<Rightarrow> unit action" where
  "actuate_p2 w testMode token userId userTemp userNow c =
     (case targetLevel_p2 userTemp userNow c of
        Some targetLevel \<Rightarrow>
          if \<not> testEnabled testMode then
            andThen (retryApiCall (callTurnOnSide w token userId) 3) (\<lambda>_.
            retryApiCall (callSetHeatingLevel w token userId targetLevel) 3)
          else succeed ()
      | None \<Rightarrow>
          if dateGreater userNow (wakeupTime c) then
            (if \<not> testEnabled testMode then retryApiCall (callTurnOffSide w token userId) 3
             else succeed ())
          else succeed ())"

definition processProfile_p2 :: "world \<Rightarrow> TestMode option \<Rightarrow> profileRow \<Rightarrow> unit action" where
  "processProfile_p2 w testMode profile =
     (let userTemp = userTemperatureProfiles profile
      in andThen (currentInstant w testMode) (\<lambda>now.
         andThen (fromResult (toLocaleDate w now (timezoneTZ userTemp))) (\<lambda>userNow.
         andThen (refreshToken w testMode now (users profile) (tokenOf (users profile))) (\<lambda>token.
         actuate_p2 w testMode token (eightUserId (users profile)) userTemp userNow
           (createSleepCycle_p2 userNow (bedTimeStr userTemp) (wakeupTimeStr userTemp))))))"

text \<open>The profile fetch is outside every \<^verbatim>\<open>try\<close>.\<close>

definition adjustTemperature_p2 :: "world \<Rightarrow> TestMode option \<Rightarrow> unit action" where
  "adjustTemperature_p2 w testMode =
     andThen (perform SelectProfiles (selectProfiles w)) (\<lambda>profiles.
       forEachProfile
         (\<lambda>profile. tryCatch (processProfile_p2 w testMode profile) (\<lambda>err. succeed ()))
         profiles)"

subsection \<open>The endpoint\<close>

text \<open>
  The request carries the \<^verbatim>\<open>authorization\<close> header and the \<^verbatim>\<open>testTime\<close> query
  parameter, either of which may be absent; \<open>cronSecret\<close> is
  \<^verbatim>\<open>process.env.CRON_SECRET\<close>, which a template literal prints as \<^verbatim>\<open>undefined\<close> when it
  is not set.
\<close>

record request =
  authorization :: "string option"
  testTimeParam :: "string option"

datatype response = Unauthorized | SuccessJson | InternalServerError

definition isAuthorized :: "string option \<Rightarrow> request \<Rightarrow> bool" where
  "isAuthorized cronSecret req =
     (authorization req
        = Some (''Bearer '' @ (case cronSecret of None \<Rightarrow> ''undefined'' | Some s \<Rightarrow> s)))"

text \<open>\<^verbatim>\<open>new Date(Number(testTimeParam) * 1000)\<close>.\<close>

definition testTimeOf :: "string \<Rightarrow> jsdate" where
  "testTimeOf param =
     (case jsNumber param of
        Num r \<Rightarrow> (case roundDouble (r * 1000) of Num ms \<Rightarrow> DateAt (truncRat ms)
                   | _ \<Rightarrow> InvalidDate)
      | _ \<Rightarrow> InvalidDate)"

text \<open>The test mode the handler passes on: none unless the parameter is a non-empty string.\<close>

definition testModeOf :: "request \<Rightarrow> TestMode option" where
  "testModeOf req =
     (case testTimeParam req of
        None \<Rightarrow> None
      | Some param \<Rightarrow>
          if param = [] then None
          else Some \<lparr>enabled = True, currentTime = testTimeOf param\<rparr>)"

text \<open>\<^verbatim>\<open>part_000\<close> and \<^verbatim>\<open>part_001\<close> wrap the run in a \<^verbatim>\<open>try\<close> and answer 500 on an error.\<close>

definition GET :: "world \<Rightarrow> string option \<Rightarrow> request \<Rightarrow> response action" where
  "GET w cronSecret req =
     (if \<not> isAuthorized cronSecret req then succeed Unauthorized
      else tryCatch
             (andThen (adjustTemperature w (testModeOf req)) (\<lambda>_. succeed SuccessJson))
             (\<lambda>error. succeed InternalServerError))"

definition GET_p1 :: "world \<Rightarrow> string option \<Rightarrow> request \<Rightarrow> response action" where
  "GET_p1 w cronSecret req =
     (if \<not> isAuthorized cronSecret req then succeed Unauthorized
      else tryCatch
             (andThen (adjustTemperature_p1 w (testModeOf req)) (\<lambda>_. succeed SuccessJson))
             (\<lambda>error. succeed InternalServerError))"

text \<open>\<^verbatim>\<open>route.ts\<close> and \<^verbatim>\<open>part_002\<close> await the run without a \<^verbatim>\<open>try\<close>.\<close>

definition GET_route :: "world \<Rightarrow> string option \<Rightarrow> request \<Rightarrow> response action" where
  "GET_route w cronSecret req =
     (if \<not> isAuthorized cronSecret req then succeed Unauthorized
      else andThen (adjustTemperature_route w (testModeOf req)) (\<lambda>_. succeed SuccessJson))"

definition GET_p2 :: "world \<Rightarrow> string option \<Rightarrow> request \<Rightarrow> response action" where
  "GET_p2 w cronSecret req =
     (if \<not> isAuthorized cronSecret req then succeed Unauthorized
      else andThen (adjustTemperature_p2 w (testModeOf req)) (\<lambda>_. succeed SuccessJson))"

section \<open>Notions of the specification\<close>

text \<open>
  The specification calls a clock string valid when it has the form \<^verbatim>\<open>HH:MM\<close> with the
  hour in \<open>[0, 23]\<close> and the minute in \<open>[0, 59]\<close>. \<open>clockFields\<close> reads the two fields of
  a string of that form, \<open>clockMs\<close> is the time of day they denote, and \<open>anchoredOn now s\<close>
  is that time of day on the calendar date of the instant \<open>now\<close>.
\<close>

definition clockFields :: "string \<Rightarrow> (int \<times> int) option" where
  "clockFields s =
     (case s of
        [a, b, c, d, e] \<Rightarrow>
          if isDecDigit a \<and> isDecDigit b \<and> c = CHR '':'' \<and> isDecDigit d \<and> isDecDigit e
          then Some (10 * digitVal a + digitVal b, 10 * digitVal d + digitVal e)
          else None
      | _ \<Rightarrow> None)"

definition validClock :: "string \<Rightarrow> bool" where
  "validClock s = (case clockFields s of None \<Rightarrow> False | Some (h, m) \<Rightarrow> h \<le> 23 \<and> m \<le> 59)"

definition clockMs :: "string \<Rightarrow> int" where
  "clockMs s = (case clockFields s of None \<Rightarrow> 0
                | Some (h, m) \<Rightarrow> h * msPerHour + m * msPerMinute)"

definition anchoredOn :: "int \<Rightarrow> string \<Rightarrow> int" where
  "anchoredOn now s = startOfDay now + clockMs s"

text \<open>
  The time from going to bed to waking up that a pair of clock strings describes: the wake
  time is on the next day when it is not after the bed time.
\<close>

definition sleepSpan :: "string \<Rightarrow> string \<Rightarrow> int" where
  "sleepSpan bedStr wakeStr =
     (if clockMs wakeStr \<le> clockMs bedStr then clockMs wakeStr + msPerDay - clockMs bedStr
      else clockMs wakeStr - clockMs bedStr)"

text \<open>
  The cycle that \<^verbatim>\<open>adjustTemperature\<close> classifies against: \<^verbatim>\<open>createSleepCycle\<close>
  followed by the day-rollover correction of every boundary.
\<close>

definition cycleAt :: "jsdate \<Rightarrow> string \<Rightarrow> string \<Rightarrow> error + SleepCycle" where
  "cycleAt userNow bedStr wakeStr =
     orThrow (createSleepCycle userNow bedStr wakeStr) (\<lambda>sleepCycle.
       Inr (adjustedCycle userNow sleepCycle))"

definition cycleAt_route :: "jsdate \<Rightarrow> string \<Rightarrow> string \<Rightarrow> error + SleepCycle" where
  "cycleAt_route userNow bedStr wakeStr =
     orThrow (createSleepCycle_route userNow bedStr wakeStr) (\<lambda>sleepCycle.
       Inr (adjustedCycle userNow sleepCycle))"

text \<open>
  The half-open window the specification gives each stage; an instant is outside the cycle
  when it is in none of the five.
\<close>

definition inWindow :: "StageTag \<Rightarrow> SleepCycle \<Rightarrow> jsdate \<Rightarrow> bool" where
  "inWindow tag c t =
     (case tag of
        PreHeating \<Rightarrow> dateGreaterEq t (preHeatingTime c) \<and> dateLess t (bedTime c)
      | Initial \<Rightarrow> dateGreaterEq t (bedTime c) \<and> dateLess t (midStageTime c)
      | Mid \<Rightarrow> dateGreaterEq t (midStageTime c) \<and> dateLess t (finalStageTime c)
      | Final \<Rightarrow> dateGreaterEq t (finalStageTime c) \<and> dateLess t (warmingTime c)
      | Warming \<Rightarrow> dateGreaterEq t (warmingTime c) \<and> dateLess t (wakeupTime c)
      | OutsideSleepCycle \<Rightarrow>
          \<not> (dateGreaterEq t (preHeatingTime c) \<and> dateLess t (bedTime c))
          \<and> \<not> (dateGreaterEq t (bedTime c) \<and> dateLess t (midStageTime c))
          \<and> \<not> (dateGreaterEq t (midStageTime c) \<and> dateLess t (finalStageTime c))
          \<and> \<not> (dateGreaterEq t (finalStageTime c) \<and> dateLess t (warmingTime c))
          \<and> \<not> (dateGreaterEq t (warmingTime c) \<and> dateLess t (wakeupTime c)))"

text \<open>
  The cycle that the profile's clock strings describe for the night whose bed time falls on
  the calendar day beginning at the instant \<open>day\<close>, with the boundaries the specification
  derives from the bed time and the wake time.
\<close>

definition scheduleOn :: "int \<Rightarrow> string \<Rightarrow> string \<Rightarrow> SleepCycle" where
  "scheduleOn day bedStr wakeStr =
     (let bed = day + clockMs bedStr;
          wake = bed + sleepSpan bedStr wakeStr
      in \<lparr>preHeatingTime = DateAt (bed - msPerHour), bedTime = DateAt bed,
          midStageTime = DateAt (bed + msPerHour),
          finalStageTime = DateAt (wake - 2 * msPerHour),
          wakeupTime = DateAt wake,
          warmingTime = DateAt (wake - 30 * msPerMinute)\<rparr>)"

text \<open>The calls an action makes when it starts after the calls \<open>tr\<close>.\<close>

definition callsMade :: "call list \<Rightarrow> 'a action \<Rightarrow> call list" where
  "callsMade tr m = drop (length tr) (snd (m tr))"

text \<open>An action that, whatever was called before, only adds calls from the set \<open>S\<close>.\<close>

definition emitsOnly :: "call set \<Rightarrow> 'a action \<Rightarrow> bool" where
  "emitsOnly S m = (\<forall>tr. \<exists>ext. snd (m tr) = tr @ ext \<and> set ext \<subseteq> S)"



section \<open>A sample profile and its collaborators\<close>

text \<open>
  One user with the given bed and wake times and the levels 2, -1 and 1, and a world in
  which the database holds the given rows, the clock reads \<open>now\<close>, the user's zone is the
  host's, the device reports \<open>status\<close>, and every call succeeds.
\<close>

definition sampleUser :: "jsdate \<Rightarrow> usersRow" where
  "sampleUser expiry =
     \<lparr>eightAccessToken = ''access'', eightRefreshToken = ''refresh'', eightUserId = ''user-1'',
      email = ''sleeper@example.org'', eightTokenExpiresAt = expiry\<rparr>"

definition sampleProfile :: "jsdate \<Rightarrow> string \<Rightarrow> string \<Rightarrow> profileRow" where
  "sampleProfile expiry bed wake =
     \<lparr>users = sampleUser expiry,
      userTemperatureProfiles =
        \<lparr>bedTimeStr = bed, wakeupTimeStr = wake, timezoneTZ = ''UTC'',
         initialSleepLevel = 2, midStageSleepLevel = - 1, finalSleepLevel = 1\<rparr>\<rparr>"

definition sampleWorld :: "profileRow list \<Rightarrow> int \<Rightarrow> heatingStatus \<Rightarrow> world" where
  "sampleWorld rows now status =
     \<lparr>selectProfiles = (\<lambda>tr. Inr rows),
      obtainFreshAccessToken = (\<lambda>tr refresh userId.
         Inr \<lparr>eightAccessToken = ''access-2'', eightRefreshToken = ''refresh-2'',
              eightUserId = userId, eightExpiresAtPosix = DateAt (now + 3600000)\<rparr>),
      updateUserToken = (\<lambda>tr email token. Inr ()),
      getCurrentHeatingStatus = (\<lambda>tr token. Inr status),
      turnOnSide = (\<lambda>tr token userId. Inr ()),
      turnOffSide = (\<lambda>tr token userId. Inr ()),
      setHeatingLevel = (\<lambda>tr token userId level. Inr ()),
      currentDate = (\<lambda>tr. DateAt now),
      toLocaleDate = (\<lambda>d tz. Inr d)\<rparr>"

text \<open>The token \<^verbatim>\<open>adjustTemperature\<close> builds for the sample user.\<close>

definition sampleToken :: "jsdate \<Rightarrow> Token" where
  "sampleToken expiry =
     \<lparr>eightAccessToken = ''access'', eightRefreshToken = ''refresh'', eightUserId = ''user-1'',
      eightExpiresAtPosix = expiry\<rparr>"

text \<open>A device whose power-on call fails until it has been tried once.\<close>

definition isTurnOnSide :: "call \<Rightarrow> bool" where
  "isTurnOnSide c = (case c of TurnOnSide token userId \<Rightarrow> True | _ \<Rightarrow> False)"

definition flakyTurnOn :: "call list \<Rightarrow> Token \<Rightarrow> string \<Rightarrow> error + unit" where
  "flakyTurnOn tr token userId =
     (if list_ex isTurnOnSide tr then Inr () else Inl (CollaboratorError ''device timeout''))"

text \<open>A database whose profile query fails.\<close>

definition failingSelect :: "call list \<Rightarrow> error + profileRow list" where
  "failingSelect tr = Inl (CollaboratorError ''connection refused'')"

text \<open>
  The scenarios evaluated below, on 14 November 2023 (midnight is 1699920000000), with a
  token that expires in 2027:
  \<^item> 22:05, the device off, and a power-on call that fails once;
  \<^item> a database that is down;
  \<^item> 23:30, the device already heating at the mid-stage level;
  \<^item> 07:00, an hour after the wake time, the device off;
  \<^item> 16:00, an hour after the end of a nap from 13:00 to 15:00, the device off.
\<close>

definition flakyEvening :: world where
  "flakyEvening =
     (sampleWorld [sampleProfile (DateAt 1800000000000) ''22:00'' ''06:00''] 1699999500000
        \<lparr>isHeating = False, heatingLevel = 0\<rparr>)
     \<lparr>turnOnSide := flakyTurnOn\<rparr>"

definition databaseDown :: world where
  "databaseDown =
     (sampleWorld [] 1699999500000 \<lparr>isHeating = False, heatingLevel = 0\<rparr>)
     \<lparr>selectProfiles := failingSelect\<rparr>"


definition coldMorning :: world where
  "coldMorning =
     sampleWorld [sampleProfile (DateAt 1800000000000) ''22:00'' ''06:00''] 1699945200000
       \<lparr>isHeating = False, heatingLevel = 0\<rparr>"

definition afterNap :: world where
  "afterNap =
     sampleWorld [sampleProfile (DateAt 1800000000000) ''13:00'' ''15:00''] 1699977600000
       \<lparr>isHeating = False, heatingLevel = 0\<rparr>"

text \<open>07:00 again, with the device still heating at the final level.\<close>

definition warmMorning :: world where
  "warmMorning =
     sampleWorld [sampleProfile (DateAt 1800000000000) ''22:00'' ''06:00''] 1699945200000
       \<lparr>isHeating = True, heatingLevel = 1\<rparr>"

section \<open>Reading numbers and clock strings\<close>


declare bitLength.simps [simp del]

lemma bitLength_bounds:
  "0 < n \<Longrightarrow> 1 \<le> bitLength n \<and> 2 ^ nat (bitLength n - 1) \<le> n \<and> n < 2 ^ nat (bitLength n)"
proof (induction n rule: bitLength.induct)
  case (1 n)
  show ?case
  proof (cases "n = 1")
    case True
    have "bitLength 1 = 1" by (simp add: bitLength.simps [of 1] bitLength.simps [of 0])
    with True show ?thesis by simp
  next
    case False
    with "1.prems" have m: "0 < n div 2" by simp
    from "1.IH" [OF _ m] "1.prems"
    have ih: "1 \<le> bitLength (n div 2)" "2 ^ nat (bitLength (n div 2) - 1) \<le> n div 2"
      "n div 2 < 2 ^ nat (bitLength (n div 2))" by simp_all
    have bl: "bitLength n = 1 + bitLength (n div 2)"
      using "1.prems" by (simp add: bitLength.simps [of n])
    have e1: "nat (bitLength n - 1) = Suc (nat (bitLength (n div 2) - 1))"
      using ih(1) bl by simp
    have e2: "nat (bitLength n) = Suc (nat (bitLength (n div 2)))"
      using ih(1) bl by simp
    have d: "2 * (n div 2) \<le> n" "n < 2 * (n div 2) + 2" by simp_all
    show ?thesis unfolding e1 e2 power_Suc using ih bl d by linarith
  qed
qed

lemma roundHalfEven_int: "roundHalfEven (of_int m) = m"
  by (simp add: roundHalfEven_def Let_def)

lemma floorLog2_int:
  assumes "0 < n"
  shows "floorLog2 (of_int n) = bitLength n - 1"
proof -
  have one: "bitLength 1 = 1" by (simp add: bitLength.simps [of 1] bitLength.simps [of 0])
  from bitLength_bounds [OF assms]
  have b: "1 \<le> bitLength n" "2 ^ nat (bitLength n - 1) \<le> n" by simp_all
  have "(of_int (2 ^ nat (bitLength n - 1)) :: rat) \<le> of_int n"
    using b(2) by (simp only: of_int_le_iff)
  then have "pow2 (bitLength n - 1) \<le> of_int n"
    using b(1) by (simp add: pow2_def)
  then show ?thesis
    by (simp add: floorLog2_def quotient_of_int one)
qed

lemma roundDouble_int:
  assumes "0 \<le> n" "n < 2 ^ 53"
  shows "roundDouble (of_int n) = Num (of_int n)"
proof (cases "n = 0")
  case True
  then show ?thesis by (simp add: roundDouble_def)
next
  case False
  with assms have pos: "0 < n" by simp
  define e where "e = bitLength n - 1"
  from bitLength_bounds [OF pos]
  have b: "0 \<le> e" "2 ^ nat e \<le> n" by (simp_all add: e_def)
  have "(2::int) ^ nat e < 2 ^ 53" using b(2) assms(2) by linarith
  then have "nat e < 53" using power_less_imp_less_exp [of "2::int" "nat e" 53] by simp
  then have e52: "e \<le> 52" by simp
  define k where "k = nat (52 - e)"
  have u: "pow2 (e - 52) = 1 / 2 ^ k"
    using e52 by (simp add: pow2_def k_def) 
  have q: "roundHalfEven ((of_int n :: rat) * 2 ^ k) = n * 2 ^ k"
    using roundHalfEven_int [of "n * 2 ^ k"] by simp
  have r: "(of_int (n * 2 ^ k) :: rat) / 2 ^ k = of_int n" by simp
  have big: "\<not> pow2 1024 \<le> (of_int n :: rat)"
  proof -
    have "(of_int n :: rat) < of_int (2 ^ 53)" using assms(2) by (simp only: of_int_less_iff)
    also have "\<dots> \<le> pow2 1024" by (simp add: pow2_def)
    finally show ?thesis by simp
  qed
  have fl: "floorLog2 (of_int n) = e" by (simp add: floorLog2_int [OF pos] e_def)
  have mx: "max e (- 1022) = e" using b(1) by simp
  show ?thesis
    using pos big
    by (simp add: roundDouble_def Let_def fl mx u q r del: of_int_mult of_int_power)
qed

lemma digit_facts:
  assumes "isDecDigit c"
  shows "\<not> isStrWhiteSpace c" "c \<noteq> CHR '':''" "c \<noteq> CHR ''+''" "c \<noteq> CHR ''-''" "c \<noteq> CHR ''.''"
    "c \<noteq> CHR ''x''" "c \<noteq> CHR ''X''" "c \<noteq> CHR ''o''" "c \<noteq> CHR ''O''" "c \<noteq> CHR ''b''"
    "c \<noteq> CHR ''B''" "c \<noteq> CHR ''I''" "0 \<le> digitVal c" "digitVal c \<le> 9"
  using assms by (auto simp: isDecDigit_def isStrWhiteSpace_def digitVal_def)

lemma jsNumber_two_digits:
  assumes a: "isDecDigit a" and b: "isDecDigit b"
  shows "jsNumber [a, b] = Num (of_int (10 * digitVal a + digitVal b))"
proof -
  have rd: "roundDouble (of_int (10 * digitVal a + digitVal b))
              = Num (of_int (10 * digitVal a + digitVal b))"
    using digit_facts(13,14) [OF a] digit_facts(13,14) [OF b]
    by (intro roundDouble_int) simp_all
  have "strUnsignedDecimal [a, b] = Some (of_int (10 * digitVal a + digitVal b))"
    using a b by (simp add: strUnsignedDecimal_def exponentPart_def decValue_def pow10_def)
  then have lit: "strDecimalLiteral [a, b] = Num (of_int (10 * digitVal a + digitVal b))"
    using digit_facts [OF a] rd by (simp add: strDecimalLiteral_def)
  have trim: "trimString [a, b] = [a, b]"
    using digit_facts(1) [OF a] digit_facts(1) [OF b] by (simp add: trimString_def)
  have radix: "nonDecimalRadix [a, b] = None"
    using digit_facts [OF b] by (simp add: nonDecimalRadix_def)
  show ?thesis
    by (simp add: jsNumber_def trim radix lit Let_def del: of_int_add of_int_mult)
qed

lemma splitColon_clock:
  assumes "isDecDigit a" "isDecDigit b" "isDecDigit d" "isDecDigit e"
  shows "splitColon [a, b, CHR '':'', d, e] = [[a, b], [d, e]]"
  using assms [THEN digit_facts(2)] by simp

lemma clockFields_SomeD:
  assumes "clockFields s = Some (h, m)"
  shows "map jsNumber (splitColon s) = [Num (of_int h), Num (of_int m)] \<and> 0 \<le> h \<and> 0 \<le> m"
proof -
  from assms obtain a b d e where s: "s = [a, b, CHR '':'', d, e]"
    and dg: "isDecDigit a" "isDecDigit b" "isDecDigit d" "isDecDigit e"
    and h: "h = 10 * digitVal a + digitVal b" and m: "m = 10 * digitVal d + digitVal e"
    by (auto simp: clockFields_def split: list.splits if_splits)
  show ?thesis
    using digit_facts(13) [OF dg(1)] digit_facts(13) [OF dg(2)]
      digit_facts(13) [OF dg(3)] digit_facts(13) [OF dg(4)]
    by (simp add: s h m splitColon_clock [OF dg] jsNumber_two_digits dg
        del: splitColon.simps of_int_add of_int_mult)
qed

lemma createDateWithTime_valid:
  assumes "clockFields s = Some (h, m)" "h \<le> 23" "m \<le> 59"
  shows "createDateWithTime (DateAt t) s = Inr (DateAt (startOfDay t + h * msPerHour + m * msPerMinute))"
  using clockFields_SomeD [OF assms(1)] assms(2,3)
  by (simp add: createDateWithTime_def isNaN_def numLess_def numGreater_def setHours4_def
      finiteInteger_def truncRat_def)

lemma createDateWithTime_route_valid:
  assumes "clockFields s = Some (h, m)"
  shows "createDateWithTime_route (DateAt t) s = Inr (DateAt (startOfDay t + h * msPerHour + m * msPerMinute))"
  using clockFields_SomeD [OF assms(1)]
  by (simp add: createDateWithTime_route_def isNaN_def setHours4_def
      finiteInteger_def truncRat_def)

lemma createDateWithTime_p2_valid:
  assumes "clockFields s = Some (h, m)"
  shows "createDateWithTime_p2 (DateAt t) s = DateAt (startOfDay t + h * msPerHour + m * msPerMinute)"
  using clockFields_SomeD [OF assms(1)]
  by (simp add: createDateWithTime_p2_def setHours4_def finiteInteger_def truncRat_def)

section \<open>The boundaries of a cycle\<close>

lemma setHours1_getHours:
  "setHours1 (DateAt x) (numMinus (getHours (DateAt x)) k) = DateAt (x - k * msPerHour)"
proof -
  define h where "h = (x mod msPerDay) div msPerHour"
  have "x mod msPerDay mod msPerHour = x mod msPerHour"
    by (rule mod_mod_cancel) (simp add: msPerDay_def msPerHour_def)
  then have dm: "h * msPerHour + x mod msPerHour = x mod msPerDay"
    unfolding h_def by (metis div_mult_mod_eq)
  have tr: "truncRat (of_int h - of_int k) = h - k"
    by (simp add: truncRat_def flip: of_int_diff)
  have "setHours1 (DateAt x) (numMinus (getHours (DateAt x)) k)
          = DateAt (startOfDay x + (h - k) * msPerHour + x mod msPerHour)"
    by (simp add: setHours1_def getHours_def numMinus_def finiteInteger_def tr flip: h_def)
  also have "startOfDay x + (h - k) * msPerHour + x mod msPerHour = x - k * msPerHour"
    using dm by (simp add: startOfDay_def algebra_simps)
  finally show ?thesis .
qed

lemma clockMs_range:
  assumes "validClock s"
  shows "0 \<le> clockMs s" "clockMs s < msPerDay"
proof -
  from assms obtain h m where f: "clockFields s = Some (h, m)" and r: "h \<le> 23" "m \<le> 59"
    by (auto simp: validClock_def split: option.splits)
  from clockFields_SomeD [OF f] have p: "0 \<le> h" "0 \<le> m" by simp_all
  show "0 \<le> clockMs s" using p by (simp add: clockMs_def f msPerHour_def msPerMinute_def)
  show "clockMs s < msPerDay"
    using r by (simp add: clockMs_def f msPerHour_def msPerMinute_def msPerDay_def)
qed

lemma startOfDay_anchoredOn:
  assumes "validClock s"
  shows "startOfDay (anchoredOn now s) = startOfDay now"
proof -
  have "(now - now mod msPerDay + clockMs s) mod msPerDay = clockMs s mod msPerDay"
    by (metis add.commute minus_mod_eq_mult_div mod_mult_self4 mult.commute)
  also have "\<dots> = clockMs s" using clockMs_range [OF assms] by simp
  finally show ?thesis by (simp add: startOfDay_def anchoredOn_def)
qed

lemma createDateWithTime_anchored:
  assumes "validClock s"
  shows "createDateWithTime (DateAt now) s = Inr (DateAt (anchoredOn now s))"
    "createDateWithTime_route (DateAt now) s = Inr (DateAt (anchoredOn now s))"
    "createDateWithTime_p2 (DateAt now) s = DateAt (anchoredOn now s)"
proof -
  from assms obtain h m where f: "clockFields s = Some (h, m)" and r: "h \<le> 23" "m \<le> 59"
    by (auto simp: validClock_def split: option.splits)
  show "createDateWithTime (DateAt now) s = Inr (DateAt (anchoredOn now s))"
    by (simp add: createDateWithTime_valid [OF f r] anchoredOn_def clockMs_def f)
  show "createDateWithTime_route (DateAt now) s = Inr (DateAt (anchoredOn now s))"
    by (simp add: createDateWithTime_route_valid [OF f] anchoredOn_def clockMs_def f)
  show "createDateWithTime_p2 (DateAt now) s = DateAt (anchoredOn now s)"
    by (simp add: createDateWithTime_p2_valid [OF f] anchoredOn_def clockMs_def f)
qed

lemma createSleepCycle_valid:
  assumes "validClock bedStr" "validClock wakeStr"
  shows "createSleepCycle (DateAt now) bedStr wakeStr =
           Inr \<lparr>preHeatingTime = DateAt (anchoredOn now bedStr - msPerHour),
                bedTime = DateAt (anchoredOn now bedStr),
                midStageTime = DateAt (anchoredOn now bedStr + msPerHour),
                finalStageTime = DateAt (anchoredOn now bedStr + sleepSpan bedStr wakeStr - 2 * msPerHour),
                wakeupTime = DateAt (anchoredOn now bedStr + sleepSpan bedStr wakeStr),
                warmingTime = DateAt (anchoredOn now bedStr + sleepSpan bedStr wakeStr - 30 * msPerMinute)\<rparr>"
    and "createSleepCycle_route (DateAt now) bedStr wakeStr = createSleepCycle (DateAt now) bedStr wakeStr"
  by (simp_all add: createSleepCycle_def createSleepCycle_route_def orThrow_def Let_def
      createDateWithTime_anchored assms setHours1_getHours dateLessEq_def addDays_def plusMs_def
      sleepSpan_def anchoredOn_def msPerHour_def msPerMinute_def)

text \<open>
  Claim C4. For every reference instant \<open>now\<close> and valid clock strings,
  \<^verbatim>\<open>createSleepCycle\<close> anchors the bed time and the wake time on the calendar date of
  \<open>now\<close>, moves the wake time forward by exactly one day when it is not after the bed time,
  and sets the mid stage to start one hour after the bed time, the final stage two hours
  before the wake time, the warming stage (where the cycle has one) thirty minutes before
  the wake time, and the pre-heating to start the lead time before the bed time: one hour
  in \<^verbatim>\<open>part_000\<close>, three hours in \<^verbatim>\<open>part_001\<close>.
\<close>

theorem createSleepCycle_boundaries:
  assumes "validClock bedStr" "validClock wakeStr"
  shows "(let bed = anchoredOn now bedStr;
              wake = (if anchoredOn now wakeStr \<le> anchoredOn now bedStr
                      then anchoredOn now wakeStr + msPerDay
                      else anchoredOn now wakeStr)
          in createSleepCycle (DateAt now) bedStr wakeStr =
               Inr \<lparr>preHeatingTime = DateAt (bed - 1 * msPerHour), bedTime = DateAt bed,
                    midStageTime = DateAt (bed + 1 * msPerHour),
                    finalStageTime = DateAt (wake - 2 * msPerHour),
                    wakeupTime = DateAt wake,
                    warmingTime = DateAt (wake - 30 * msPerMinute)\<rparr>
             \<and> createSleepCycle_p1 (DateAt now) bedStr wakeStr =
               Inr \<lparr>preHeatingTime = DateAt (bed - 3 * msPerHour), bedTime = DateAt bed,
                    midStageTime = DateAt (bed + 1 * msPerHour),
                    finalStageTime = DateAt (wake - 2 * msPerHour),
                    wakeupTime = DateAt wake\<rparr>)
         \<and> startOfDay (anchoredOn now bedStr) = startOfDay now
         \<and> startOfDay (anchoredOn now wakeStr) = startOfDay now"
  by (simp add: createSleepCycle_def createSleepCycle_p1_def orThrow_def Let_def
      createDateWithTime_anchored assms setHours1_getHours dateLessEq_def addDays_def plusMs_def
      startOfDay_anchoredOn msPerHour_def msPerMinute_def)

theorem createSleepCycle_boundaries_witness:
  "validClock ''22:00'' \<and> validClock ''06:00''
   \<and> createSleepCycle (DateAt 1700000000000) ''22:00'' ''06:00'' =
       Inr \<lparr>preHeatingTime = DateAt 1699995600000, bedTime = DateAt 1699999200000,
            midStageTime = DateAt 1700002800000, finalStageTime = DateAt 1700020800000,
            wakeupTime = DateAt 1700028000000, warmingTime = DateAt 1700026200000\<rparr>"
proof -
  have v: "validClock ''22:00''" "validClock ''06:00''"
    by (simp_all add: validClock_def clockFields_def isDecDigit_def digitVal_def)
  have a: "anchoredOn 1700000000000 ''22:00'' = 1699999200000"
    "anchoredOn 1700000000000 ''06:00'' = 1699941600000"
    by (simp_all add: anchoredOn_def startOfDay_def clockMs_def clockFields_def isDecDigit_def
        digitVal_def msPerDay_def msPerHour_def msPerMinute_def)
  show ?thesis
    using createSleepCycle_boundaries [OF v, of 1700000000000] v
    by (simp add: a msPerDay_def msPerHour_def msPerMinute_def)
qed

section \<open>The day-rollover correction\<close>

lemma adjustTimeToCurrentCycle_valid:
  "adjustTimeToCurrentCycle (DateAt c) (DateAt n) (DateAt t) =
     DateAt (let a = (if t < c then t + msPerDay else t)
             in if a - n > 12 * msPerHour then a - msPerDay else a)"
  by (simp add: adjustTimeToCurrentCycle_def dateLess_def dateGreater_def msBetween_def
      addDays_def msPerDay_def msPerHour_def Let_def)

text \<open>
  Claim C5, as stated, fails. With the cycle starting on 14 November 2023 at 21:00 and the
  reference instant that day at 07:00, a boundary on 16 November at 06:00 is 47 hours
  ahead: one application moves it to 15 November 06:00, still 23 hours ahead, and a second
  application moves that to 14 November 06:00.
\<close>

theorem rollover_not_idempotent:
  "adjustTimeToCurrentCycle (DateAt 1699995600000) (DateAt 1699945200000) (DateAt 1700114400000)
     = DateAt 1700028000000
   \<and> adjustTimeToCurrentCycle (DateAt 1699995600000) (DateAt 1699945200000) (DateAt 1700028000000)
     = DateAt 1699941600000
   \<and> adjustTimeToCurrentCycle (DateAt 1699995600000) (DateAt 1699945200000)
       (adjustTimeToCurrentCycle (DateAt 1699995600000) (DateAt 1699945200000)
          (DateAt 1700114400000))
     \<noteq> adjustTimeToCurrentCycle (DateAt 1699995600000) (DateAt 1699945200000)
         (DateAt 1700114400000)"
  by (simp add: adjustTimeToCurrentCycle_valid msPerDay_def msPerHour_def)

text \<open>
  Claim C5, amended. Applying the correction twice gives the same boundary as applying it
  once exactly when the boundary \<open>t\<close> is neither more than a day before the cycle start
  while still at most 12 hours ahead of the reference instant after two days are added,
  nor a day or more after the cycle start and more than 36 hours ahead of the reference
  instant; in particular whenever \<open>t\<close> lies within one day of the cycle start on either
  side.
\<close>

theorem rollover_idempotent_iff:
  "(adjustTimeToCurrentCycle (DateAt c) (DateAt n)
      (adjustTimeToCurrentCycle (DateAt c) (DateAt n) (DateAt t))
    = adjustTimeToCurrentCycle (DateAt c) (DateAt n) (DateAt t))
   = (\<not> (t + msPerDay < c \<and> t + 2 * msPerDay - n \<le> 12 * msPerHour)
      \<and> \<not> (c + msPerDay \<le> t \<and> t - n > 36 * msPerHour))
   \<and> (c - msPerDay \<le> t \<and> t < c + msPerDay \<longrightarrow>
        adjustTimeToCurrentCycle (DateAt c) (DateAt n)
          (adjustTimeToCurrentCycle (DateAt c) (DateAt n) (DateAt t))
        = adjustTimeToCurrentCycle (DateAt c) (DateAt n) (DateAt t))"
  unfolding adjustTimeToCurrentCycle_valid
  by (simp add: Let_def msPerDay_def msPerHour_def)

theorem rollover_idempotent_witness:
  "1699995600000 - msPerDay \<le> 1700028000000 \<and> 1700028000000 < 1699995600000 + msPerDay
   \<and> adjustTimeToCurrentCycle (DateAt 1699995600000) (DateAt 1699945200000)
        (adjustTimeToCurrentCycle (DateAt 1699995600000) (DateAt 1699945200000)
           (DateAt 1700028000000))
      = adjustTimeToCurrentCycle (DateAt 1699995600000) (DateAt 1699945200000)
          (DateAt 1700028000000)
   \<and> adjustTimeToCurrentCycle (DateAt 1699995600000) (DateAt 1699945200000)
        (DateAt 1700028000000) = DateAt 1699941600000"
  using rollover_idempotent_iff [where c = 1699995600000 and n = 1699945200000 and t = 1700028000000]
  by (simp add: adjustTimeToCurrentCycle_valid msPerDay_def msPerHour_def)

section \<open>Stage detection by windows\<close>

lemma windows_disjoint:
  fixes p n t x1 x2 x3 x4 :: int
  assumes "x1 \<le> x2" "x2 \<le> x3" "x3 \<le> x4" "x4 \<le> x1 + msPerDay"
  shows "\<not> ((if x1 - n > 12 * msPerHour then x1 - msPerDay else x1) \<le> t
            \<and> t < (if x2 - n > 12 * msPerHour then x2 - msPerDay else x2)
            \<and> (if x3 - n > 12 * msPerHour then x3 - msPerDay else x3) \<le> t
            \<and> t < (if x4 - n > 12 * msPerHour then x4 - msPerDay else x4))"
  using assms by (auto simp: msPerDay_def msPerHour_def split: if_splits)

lemma stage_by_window:
  fixes P B M F Wm W t :: int
  assumes "\<not> (P \<le> t \<and> t < B \<and> M \<le> t \<and> t < F)"
    "\<not> (P \<le> t \<and> t < B \<and> F \<le> t \<and> t < Wm)"
    "\<not> (P \<le> t \<and> t < B \<and> Wm \<le> t \<and> t < W)"
    "\<not> (B \<le> t \<and> t < M \<and> F \<le> t \<and> t < Wm)"
    "\<not> (B \<le> t \<and> t < M \<and> Wm \<le> t \<and> t < W)"
    "\<not> (M \<le> t \<and> t < F \<and> Wm \<le> t \<and> t < W)"
  defines "c \<equiv> \<lparr>preHeatingTime = DateAt P, bedTime = DateAt B, midStageTime = DateAt M,
                  finalStageTime = DateAt F, wakeupTime = DateAt W, warmingTime = DateAt Wm\<rparr>"
  shows "(currentSleepStage (DateAt t) c = tag) = inWindow tag c (DateAt t)"
    and "(currentSleepStage_route (DateAt t) c = tag) = inWindow tag c (DateAt t)"
  using assms(1-6)
  by (cases tag; simp add: c_def currentSleepStage_def currentSleepStage_route_def inWindow_def
      dateGreaterEq_def dateLessEq_def dateLess_def; linarith)+

lemma adjust_after_start:
  assumes "c \<le> x"
  shows "adjustTimeToCurrentCycle (DateAt c) (DateAt n) (DateAt x)
           = DateAt (if x - n > 12 * msPerHour then x - msPerDay else x)"
  using assms by (simp add: adjustTimeToCurrentCycle_valid Let_def)

lemma day_of_instant:
  fixes day n :: int
  assumes "day mod msPerDay = 0" "day \<le> n" "n < day + 2 * msPerDay"
  shows "day = startOfDay n \<or> day = startOfDay n - msPerDay"
proof -
  from assms(1) obtain k where k: "day = msPerDay * k" by auto
  define r where "r = n - day"
  have n: "n = r + msPerDay * k" by (simp add: r_def k)
  have r: "0 \<le> r" "r < 2 * msPerDay" using assms(2,3) by (simp_all add: r_def)
  have m: "n mod msPerDay = r mod msPerDay" unfolding n by (rule mod_mult_self2)
  show ?thesis
  proof (cases "r < msPerDay")
    case True
    with r(1) have "r mod msPerDay = r" by (rule mod_pos_pos_trivial)
    then show ?thesis by (simp add: startOfDay_def m r_def)
  next
    case False
    then have "0 \<le> r - msPerDay" "r - msPerDay < msPerDay" using r(2) by simp_all
    then have "(r - msPerDay) mod msPerDay = r - msPerDay" by (rule mod_pos_pos_trivial)
    then have "r mod msPerDay = r - msPerDay" by (simp only: minus_mod_self2)
    then show ?thesis by (simp add: startOfDay_def m r_def)
  qed
qed

lemma rolled_window_sound:
  fixes P B M F Wm W n :: int
  assumes "P \<le> B" "B \<le> M" "M \<le> F" "F \<le> Wm" "Wm \<le> W" "W \<le> P + msPerDay"
    and "inWindow tag
           \<lparr>preHeatingTime = DateAt (if P - n > 12 * msPerHour then P - msPerDay else P),
            bedTime = DateAt (if B - n > 12 * msPerHour then B - msPerDay else B),
            midStageTime = DateAt (if M - n > 12 * msPerHour then M - msPerDay else M),
            finalStageTime = DateAt (if F - n > 12 * msPerHour then F - msPerDay else F),
            wakeupTime = DateAt (if W - n > 12 * msPerHour then W - msPerDay else W),
            warmingTime = DateAt (if Wm - n > 12 * msPerHour then Wm - msPerDay else Wm)\<rparr>
           (DateAt n)"
    and "tag \<noteq> OutsideSleepCycle"
  shows "inWindow tag
           \<lparr>preHeatingTime = DateAt P, bedTime = DateAt B, midStageTime = DateAt M,
            finalStageTime = DateAt F, wakeupTime = DateAt W, warmingTime = DateAt Wm\<rparr>
           (DateAt n)
         \<or> inWindow tag
           \<lparr>preHeatingTime = DateAt (P - msPerDay), bedTime = DateAt (B - msPerDay),
            midStageTime = DateAt (M - msPerDay), finalStageTime = DateAt (F - msPerDay),
            wakeupTime = DateAt (W - msPerDay), warmingTime = DateAt (Wm - msPerDay)\<rparr>
           (DateAt n)"
  using assms
  by (cases tag)
    (auto simp: inWindow_def dateGreaterEq_def dateLessEq_def dateLess_def msPerDay_def
      msPerHour_def split: if_splits)

lemma rolled_window_complete:
  fixes P B M F Wm W n :: int
  assumes "P \<le> B" "B \<le> M" "M \<le> F" "F \<le> Wm" "Wm \<le> W"
    and "B - P \<le> 12 * msPerHour" "M - B \<le> 12 * msPerHour" "F - M \<le> 12 * msPerHour"
      "Wm - F \<le> 12 * msPerHour" "W - Wm \<le> 12 * msPerHour"
    and "inWindow tag
           \<lparr>preHeatingTime = DateAt P, bedTime = DateAt B, midStageTime = DateAt M,
            finalStageTime = DateAt F, wakeupTime = DateAt W, warmingTime = DateAt Wm\<rparr>
           (DateAt n)
         \<or> inWindow tag
           \<lparr>preHeatingTime = DateAt (P - msPerDay), bedTime = DateAt (B - msPerDay),
            midStageTime = DateAt (M - msPerDay), finalStageTime = DateAt (F - msPerDay),
            wakeupTime = DateAt (W - msPerDay), warmingTime = DateAt (Wm - msPerDay)\<rparr>
           (DateAt n)"
    and "tag \<noteq> OutsideSleepCycle"
  shows "inWindow tag
           \<lparr>preHeatingTime = DateAt (if P - n > 12 * msPerHour then P - msPerDay else P),
            bedTime = DateAt (if B - n > 12 * msPerHour then B - msPerDay else B),
            midStageTime = DateAt (if M - n > 12 * msPerHour then M - msPerDay else M),
            finalStageTime = DateAt (if F - n > 12 * msPerHour then F - msPerDay else F),
            wakeupTime = DateAt (if W - n > 12 * msPerHour then W - msPerDay else W),
            warmingTime = DateAt (if Wm - n > 12 * msPerHour then Wm - msPerDay else Wm)\<rparr>
           (DateAt n)"
  using assms
  by (cases tag)
    (auto simp: inWindow_def dateGreaterEq_def dateLessEq_def dateLess_def msPerDay_def
      msPerHour_def split: if_splits)

text \<open>
  Claim C1, as stated, fails. With bed time 22:00 and wake time 00:30 the final stage
  starts at 22:30, before the mid stage at 23:00. At 22:45 the instant is in the window of
  the initial stage and in the window of the final stage; \<^verbatim>\<open>part_000\<close> answers
  \<^verbatim>\<open>initial\<close>, \<^verbatim>\<open>route.ts\<close> answers \<^verbatim>\<open>final\<close>.
\<close>

theorem stage_windows_overlap:
  "cycleAt (DateAt 1700001900000) ''22:00'' ''00:30'' =
     Inr \<lparr>preHeatingTime = DateAt 1699995600000, bedTime = DateAt 1699999200000,
          midStageTime = DateAt 1700002800000, finalStageTime = DateAt 1700001000000,
          wakeupTime = DateAt 1700008200000, warmingTime = DateAt 1700006400000\<rparr>
   \<and> cycleAt_route (DateAt 1700001900000) ''22:00'' ''00:30'' =
     Inr \<lparr>preHeatingTime = DateAt 1699995600000, bedTime = DateAt 1699999200000,
          midStageTime = DateAt 1700002800000, finalStageTime = DateAt 1700001000000,
          wakeupTime = DateAt 1700008200000, warmingTime = DateAt 1700006400000\<rparr>
   \<and> validClock ''22:00'' \<and> validClock ''00:30''
   \<and> inWindow Initial
        \<lparr>preHeatingTime = DateAt 1699995600000, bedTime = DateAt 1699999200000,
          midStageTime = DateAt 1700002800000, finalStageTime = DateAt 1700001000000,
          wakeupTime = DateAt 1700008200000, warmingTime = DateAt 1700006400000\<rparr>
        (DateAt 1700001900000)
   \<and> inWindow Final
        \<lparr>preHeatingTime = DateAt 1699995600000, bedTime = DateAt 1699999200000,
          midStageTime = DateAt 1700002800000, finalStageTime = DateAt 1700001000000,
          wakeupTime = DateAt 1700008200000, warmingTime = DateAt 1700006400000\<rparr>
        (DateAt 1700001900000)
   \<and> currentSleepStage (DateAt 1700001900000)
        \<lparr>preHeatingTime = DateAt 1699995600000, bedTime = DateAt 1699999200000,
          midStageTime = DateAt 1700002800000, finalStageTime = DateAt 1700001000000,
          wakeupTime = DateAt 1700008200000, warmingTime = DateAt 1700006400000\<rparr> = Initial
   \<and> currentSleepStage_route (DateAt 1700001900000)
        \<lparr>preHeatingTime = DateAt 1699995600000, bedTime = DateAt 1699999200000,
          midStageTime = DateAt 1700002800000, finalStageTime = DateAt 1700001000000,
          wakeupTime = DateAt 1700008200000, warmingTime = DateAt 1700006400000\<rparr> = Final"
proof -
  have v: "validClock ''22:00''" "validClock ''00:30''"
    by (simp_all add: validClock_def clockFields_def isDecDigit_def digitVal_def)
  have a: "anchoredOn 1700001900000 ''22:00'' = 1699999200000"
    "sleepSpan ''22:00'' ''00:30'' = 9000000"
    by (simp_all add: anchoredOn_def sleepSpan_def startOfDay_def clockMs_def clockFields_def
        isDecDigit_def digitVal_def msPerDay_def msPerHour_def msPerMinute_def)
  have c: "cycleAt (DateAt 1700001900000) ''22:00'' ''00:30'' =
     Inr \<lparr>preHeatingTime = DateAt 1699995600000, bedTime = DateAt 1699999200000,
          midStageTime = DateAt 1700002800000, finalStageTime = DateAt 1700001000000,
          wakeupTime = DateAt 1700008200000, warmingTime = DateAt 1700006400000\<rparr>"
    by (simp add: cycleAt_def createSleepCycle_valid(1) [OF v] a orThrow_def adjustedCycle_def
        adjustTimeToCurrentCycle_valid Let_def msPerDay_def msPerHour_def msPerMinute_def)
  have r: "cycleAt_route (DateAt 1700001900000) ''22:00'' ''00:30''
             = cycleAt (DateAt 1700001900000) ''22:00'' ''00:30''"
    by (simp add: cycleAt_route_def cycleAt_def createSleepCycle_valid(2) [OF v])
  show ?thesis
    unfolding r c using v
    by (simp add: inWindow_def currentSleepStage_def currentSleepStage_route_def
        dateGreaterEq_def dateLessEq_def dateLess_def)
qed

text \<open>
  The windows of the cycle after the day-rollover correction need not cover the night.
  With bed time 20:00 and wake time 12:00, at 21:30 the start of the final stage, the
  start of the warming stage and the wake time are more than 12 hours ahead and are moved
  back to the morning of the same day: the instant is in the mid window of that night's
  schedule, and both versions detect no stage. With bed time 00:30 and wake time 07:00, at
  23:45 the cycle is built on the current day, whose pre-heating half hour before midnight
  was the evening before: the instant is in the pre-heating window of the coming night's
  schedule, and both versions detect no stage.
\<close>

lemma stage_gap_long_night:
  "validClock ''20:00'' \<and> validClock ''12:00''
   \<and> sleepSpan ''20:00'' ''12:00'' = 16 * msPerHour
   \<and> inWindow Mid (scheduleOn 1699920000000 ''20:00'' ''12:00'') (DateAt 1699997400000)
   \<and> cycleAt (DateAt 1699997400000) ''20:00'' ''12:00'' =
       Inr \<lparr>preHeatingTime = DateAt 1699988400000, bedTime = DateAt 1699992000000,
            midStageTime = DateAt 1699995600000, finalStageTime = DateAt 1699956000000,
            wakeupTime = DateAt 1699963200000, warmingTime = DateAt 1699961400000\<rparr>
   \<and> cycleAt_route (DateAt 1699997400000) ''20:00'' ''12:00''
       = cycleAt (DateAt 1699997400000) ''20:00'' ''12:00''
   \<and> currentSleepStage (DateAt 1699997400000)
        \<lparr>preHeatingTime = DateAt 1699988400000, bedTime = DateAt 1699992000000,
          midStageTime = DateAt 1699995600000, finalStageTime = DateAt 1699956000000,
          wakeupTime = DateAt 1699963200000, warmingTime = DateAt 1699961400000\<rparr>
       = OutsideSleepCycle
   \<and> currentSleepStage_route (DateAt 1699997400000)
        \<lparr>preHeatingTime = DateAt 1699988400000, bedTime = DateAt 1699992000000,
          midStageTime = DateAt 1699995600000, finalStageTime = DateAt 1699956000000,
          wakeupTime = DateAt 1699963200000, warmingTime = DateAt 1699961400000\<rparr>
       = OutsideSleepCycle"
proof -
  have v: "validClock ''20:00''" "validClock ''12:00''"
    by (simp_all add: validClock_def clockFields_def isDecDigit_def digitVal_def)
  have a: "anchoredOn 1699997400000 ''20:00'' = 1699992000000"
    "sleepSpan ''20:00'' ''12:00'' = 57600000" "clockMs ''20:00'' = 72000000"
    by (simp_all add: anchoredOn_def sleepSpan_def startOfDay_def clockMs_def clockFields_def
        isDecDigit_def digitVal_def msPerDay_def msPerHour_def msPerMinute_def)
  have c: "cycleAt (DateAt 1699997400000) ''20:00'' ''12:00'' =
     Inr \<lparr>preHeatingTime = DateAt 1699988400000, bedTime = DateAt 1699992000000,
            midStageTime = DateAt 1699995600000, finalStageTime = DateAt 1699956000000,
            wakeupTime = DateAt 1699963200000, warmingTime = DateAt 1699961400000\<rparr>"
    by (simp add: cycleAt_def createSleepCycle_valid(1) [OF v] a orThrow_def adjustedCycle_def
        adjustTimeToCurrentCycle_valid Let_def msPerDay_def msPerHour_def msPerMinute_def)
  have r: "cycleAt_route (DateAt 1699997400000) ''20:00'' ''12:00''
             = cycleAt (DateAt 1699997400000) ''20:00'' ''12:00''"
    by (simp add: cycleAt_route_def cycleAt_def createSleepCycle_valid(2) [OF v])
  have s: "inWindow Mid (scheduleOn 1699920000000 ''20:00'' ''12:00'') (DateAt 1699997400000)"
    by (simp add: inWindow_def scheduleOn_def Let_def a dateGreaterEq_def dateLessEq_def
        dateLess_def msPerHour_def)
  show ?thesis
    using v s r c
    by (simp add: a currentSleepStage_def currentSleepStage_route_def
        dateGreaterEq_def dateLessEq_def dateLess_def msPerHour_def)
qed

lemma stage_gap_before_midnight:
  "validClock ''00:30'' \<and> validClock ''07:00''
   \<and> sleepSpan ''00:30'' ''07:00'' = 6 * msPerHour + 30 * msPerMinute
   \<and> inWindow PreHeating (scheduleOn 1700006400000 ''00:30'' ''07:00'') (DateAt 1700005500000)
   \<and> cycleAt (DateAt 1700005500000) ''00:30'' ''07:00'' =
       Inr \<lparr>preHeatingTime = DateAt 1699918200000, bedTime = DateAt 1699921800000,
            midStageTime = DateAt 1699925400000, finalStageTime = DateAt 1699938000000,
            wakeupTime = DateAt 1699945200000, warmingTime = DateAt 1699943400000\<rparr>
   \<and> cycleAt_route (DateAt 1700005500000) ''00:30'' ''07:00''
       = cycleAt (DateAt 1700005500000) ''00:30'' ''07:00''
   \<and> currentSleepStage (DateAt 1700005500000)
        \<lparr>preHeatingTime = DateAt 1699918200000, bedTime = DateAt 1699921800000,
          midStageTime = DateAt 1699925400000, finalStageTime = DateAt 1699938000000,
          wakeupTime = DateAt 1699945200000, warmingTime = DateAt 1699943400000\<rparr>
       = OutsideSleepCycle
   \<and> currentSleepStage_route (DateAt 1700005500000)
        \<lparr>preHeatingTime = DateAt 1699918200000, bedTime = DateAt 1699921800000,
          midStageTime = DateAt 1699925400000, finalStageTime = DateAt 1699938000000,
          wakeupTime = DateAt 1699945200000, warmingTime = DateAt 1699943400000\<rparr>
       = OutsideSleepCycle"
proof -
  have v: "validClock ''00:30''" "validClock ''07:00''"
    by (simp_all add: validClock_def clockFields_def isDecDigit_def digitVal_def)
  have a: "anchoredOn 1700005500000 ''00:30'' = 1699921800000"
    "sleepSpan ''00:30'' ''07:00'' = 23400000" "clockMs ''00:30'' = 1800000"
    by (simp_all add: anchoredOn_def sleepSpan_def startOfDay_def clockMs_def clockFields_def
        isDecDigit_def digitVal_def msPerDay_def msPerHour_def msPerMinute_def)
  have c: "cycleAt (DateAt 1700005500000) ''00:30'' ''07:00'' =
       Inr \<lparr>preHeatingTime = DateAt 1699918200000, bedTime = DateAt 1699921800000,
            midStageTime = DateAt 1699925400000, finalStageTime = DateAt 1699938000000,
            wakeupTime = DateAt 1699945200000, warmingTime = DateAt 1699943400000\<rparr>"
    by (simp add: cycleAt_def createSleepCycle_valid(1) [OF v] a orThrow_def adjustedCycle_def
        adjustTimeToCurrentCycle_valid Let_def msPerDay_def msPerHour_def msPerMinute_def)
  have r: "cycleAt_route (DateAt 1700005500000) ''00:30'' ''07:00''
             = cycleAt (DateAt 1700005500000) ''00:30'' ''07:00''"
    by (simp add: cycleAt_route_def cycleAt_def createSleepCycle_valid(2) [OF v])
  have s: "inWindow PreHeating (scheduleOn 1700006400000 ''00:30'' ''07:00'')
             (DateAt 1700005500000)"
    by (simp add: inWindow_def scheduleOn_def Let_def a dateGreaterEq_def dateLessEq_def
        dateLess_def msPerHour_def)
  show ?thesis
    using v s r c
    by (simp add: a currentSleepStage_def currentSleepStage_route_def
        dateGreaterEq_def dateLessEq_def dateLess_def msPerHour_def msPerMinute_def)
qed

text \<open>
  Claim C1, amended. For every pair of valid clock strings whose wake time is at least
  3 hours and at most 23 hours after the bed time, and every reference instant, the cycle
  the stage is detected against is the same in \<^verbatim>\<open>part_000\<close> and \<^verbatim>\<open>route.ts\<close>, and for
  every instant \<open>t\<close> both detections return the one stage whose half-open window of that
  cycle contains \<open>t\<close>: \<open>[preHeatingTime, bedTime)\<close> pre-heating, \<open>[bedTime, midStageTime)\<close>
  initial, \<open>[midStageTime, finalStageTime)\<close> mid, \<open>[finalStageTime, warmingTime)\<close> final,
  \<open>[warmingTime, wakeupTime)\<close> warming, and outside the cycle when \<open>t\<close> is in none of them;
  the windows are mutually exclusive. A stage other than outside the cycle that is detected
  at the reference instant is the stage of the window of the profile's schedule that
  contains the instant, for the night that began on the calendar day of the instant or on
  the day before. When moreover the bed time is 01:00 or later and the wake time at most
  15 hours after it, there is no gap: whenever the reference instant lies in a window of
  the profile's schedule of any night, both detections return the stage of that window.
\<close>

theorem stage_windows_partition:
  assumes valid: "validClock bedStr" "validClock wakeStr"
    and span: "3 * msPerHour \<le> sleepSpan bedStr wakeStr" "sleepSpan bedStr wakeStr \<le> 23 * msPerHour"
  shows "\<exists>c. cycleAt (DateAt now) bedStr wakeStr = Inr c
           \<and> cycleAt_route (DateAt now) bedStr wakeStr = Inr c
           \<and> (\<forall>t tag. (currentSleepStage (DateAt t) c = tag) = inWindow tag c (DateAt t))
           \<and> (\<forall>t tag. (currentSleepStage_route (DateAt t) c = tag) = inWindow tag c (DateAt t))
           \<and> (\<forall>t. \<exists>!tag. inWindow tag c (DateAt t))
           \<and> (\<forall>tag. tag \<noteq> OutsideSleepCycle \<and> currentSleepStage (DateAt now) c = tag \<longrightarrow>
                  inWindow tag (scheduleOn (startOfDay now) bedStr wakeStr) (DateAt now)
                  \<or> inWindow tag (scheduleOn (startOfDay now - msPerDay) bedStr wakeStr)
                       (DateAt now))
           \<and> (msPerHour \<le> clockMs bedStr \<and> sleepSpan bedStr wakeStr \<le> 15 * msPerHour \<longrightarrow>
                (\<forall>day tag. day mod msPerDay = 0 \<and> tag \<noteq> OutsideSleepCycle
                    \<and> inWindow tag (scheduleOn day bedStr wakeStr) (DateAt now) \<longrightarrow>
                  currentSleepStage (DateAt now) c = tag
                  \<and> currentSleepStage_route (DateAt now) c = tag))"
proof -
  define b where "b = anchoredOn now bedStr"
  define w where "w = b + sleepSpan bedStr wakeStr"
  define sh where "sh x = (if x - now > 12 * msPerHour then x - msPerDay else x)" for x :: int
  define c where "c = \<lparr>preHeatingTime = DateAt (sh (b - msPerHour)), bedTime = DateAt (sh b),
      midStageTime = DateAt (sh (b + msPerHour)), finalStageTime = DateAt (sh (w - 2 * msPerHour)),
      wakeupTime = DateAt (sh w), warmingTime = DateAt (sh (w - 30 * msPerMinute))\<rparr>"
  define s0 where "s0 = \<lparr>preHeatingTime = DateAt (b - msPerHour), bedTime = DateAt b,
      midStageTime = DateAt (b + msPerHour), finalStageTime = DateAt (w - 2 * msPerHour),
      wakeupTime = DateAt w, warmingTime = DateAt (w - 30 * msPerMinute)\<rparr>"
  define s1 where "s1 = \<lparr>preHeatingTime = DateAt (b - msPerHour - msPerDay),
      bedTime = DateAt (b - msPerDay), midStageTime = DateAt (b + msPerHour - msPerDay),
      finalStageTime = DateAt (w - 2 * msPerHour - msPerDay), wakeupTime = DateAt (w - msPerDay),
      warmingTime = DateAt (w - 30 * msPerMinute - msPerDay)\<rparr>"
  have order: "b - msPerHour \<le> b" "b \<le> b + msPerHour" "b + msPerHour \<le> w - 2 * msPerHour"
    "w - 2 * msPerHour \<le> w - 30 * msPerMinute" "w - 30 * msPerMinute \<le> w"
    "w \<le> b - msPerHour + msPerDay"
    using span by (simp_all add: w_def msPerHour_def msPerMinute_def msPerDay_def)
  have adj: "adjustTimeToCurrentCycle (DateAt (b - msPerHour)) (DateAt now) (DateAt x) = DateAt (sh x)"
    if "b - msPerHour \<le> x" for x
    using that by (simp add: adjust_after_start sh_def)
  have cyc: "cycleAt (DateAt now) bedStr wakeStr = Inr c"
    using order
    by (simp add: cycleAt_def createSleepCycle_valid(1) [OF valid] orThrow_def adjustedCycle_def
        Let_def adj c_def flip: b_def w_def)
  have cyc_route: "cycleAt_route (DateAt now) bedStr wakeStr = Inr c"
    using cyc by (simp add: cycleAt_route_def cycleAt_def createSleepCycle_valid(2) [OF valid])
  have stage: "(currentSleepStage (DateAt t) c = tag) = inWindow tag c (DateAt t)"
    and stage_route: "(currentSleepStage_route (DateAt t) c = tag) = inWindow tag c (DateAt t)"
    for t tag
  proof -
    note d = windows_disjoint [of _ _ _ _ now t, folded sh_def]
    have dis: "\<not> (sh (b - msPerHour) \<le> t \<and> t < sh b \<and> sh (b + msPerHour) \<le> t \<and> t < sh (w - 2 * msPerHour))"
      "\<not> (sh (b - msPerHour) \<le> t \<and> t < sh b \<and> sh (w - 2 * msPerHour) \<le> t \<and> t < sh (w - 30 * msPerMinute))"
      "\<not> (sh (b - msPerHour) \<le> t \<and> t < sh b \<and> sh (w - 30 * msPerMinute) \<le> t \<and> t < sh w)"
      "\<not> (sh b \<le> t \<and> t < sh (b + msPerHour) \<and> sh (w - 2 * msPerHour) \<le> t \<and> t < sh (w - 30 * msPerMinute))"
      "\<not> (sh b \<le> t \<and> t < sh (b + msPerHour) \<and> sh (w - 30 * msPerMinute) \<le> t \<and> t < sh w)"
      "\<not> (sh (b + msPerHour) \<le> t \<and> t < sh (w - 2 * msPerHour) \<and> sh (w - 30 * msPerMinute) \<le> t \<and> t < sh w)"
      using order by (intro d; linarith)+
    show "(currentSleepStage (DateAt t) c = tag) = inWindow tag c (DateAt t)"
      unfolding c_def by (rule stage_by_window(1) [OF dis])
    show "(currentSleepStage_route (DateAt t) c = tag) = inWindow tag c (DateAt t)"
      unfolding c_def by (rule stage_by_window(2) [OF dis])
  qed
  have uniq: "\<exists>!tag. inWindow tag c (DateAt t)" for t
    using stage [of t] by metis
  have today: "scheduleOn (startOfDay now) bedStr wakeStr = s0"
    by (simp add: scheduleOn_def Let_def s0_def w_def b_def anchoredOn_def)
  have yesterday: "scheduleOn (startOfDay now - msPerDay) bedStr wakeStr = s1"
    by (simp add: scheduleOn_def Let_def s1_def w_def b_def anchoredOn_def)
  have sound: "inWindow tag (scheduleOn (startOfDay now) bedStr wakeStr) (DateAt now)
               \<or> inWindow tag (scheduleOn (startOfDay now - msPerDay) bedStr wakeStr) (DateAt now)"
    if "tag \<noteq> OutsideSleepCycle \<and> currentSleepStage (DateAt now) c = tag" for tag
  proof -
    from that have "inWindow tag c (DateAt now)" by (simp add: stage)
    from rolled_window_sound [OF order this [unfolded c_def sh_def]] that
    show ?thesis unfolding today yesterday s0_def s1_def by simp
  qed
  have complete: "currentSleepStage (DateAt now) c = tag
                  \<and> currentSleepStage_route (DateAt now) c = tag"
    if early: "msPerHour \<le> clockMs bedStr \<and> sleepSpan bedStr wakeStr \<le> 15 * msPerHour"
      and win: "day mod msPerDay = 0 \<and> tag \<noteq> OutsideSleepCycle
                \<and> inWindow tag (scheduleOn day bedStr wakeStr) (DateAt now)" for day tag
  proof -
    have inside: "day + clockMs bedStr - msPerHour \<le> now"
      "now < day + clockMs bedStr + sleepSpan bedStr wakeStr"
      using win span
      by (cases tag; simp add: inWindow_def scheduleOn_def Let_def dateGreaterEq_def
          dateLessEq_def dateLess_def msPerHour_def msPerMinute_def)+
    have "day \<le> now" "now < day + 2 * msPerDay"
      using inside early clockMs_range [OF valid(1)]
      by (simp_all add: msPerHour_def msPerDay_def)
    with win have "day = startOfDay now \<or> day = startOfDay now - msPerDay"
      by (intro day_of_instant) simp_all
    with win have "inWindow tag s0 (DateAt now) \<or> inWindow tag s1 (DateAt now)"
      using today yesterday by auto
    then have "inWindow tag
           \<lparr>preHeatingTime = DateAt (b - msPerHour), bedTime = DateAt b,
            midStageTime = DateAt (b + msPerHour), finalStageTime = DateAt (w - 2 * msPerHour),
            wakeupTime = DateAt w, warmingTime = DateAt (w - 30 * msPerMinute)\<rparr>
           (DateAt now)
         \<or> inWindow tag
           \<lparr>preHeatingTime = DateAt (b - msPerHour - msPerDay), bedTime = DateAt (b - msPerDay),
            midStageTime = DateAt (b + msPerHour - msPerDay),
            finalStageTime = DateAt (w - 2 * msPerHour - msPerDay),
            wakeupTime = DateAt (w - msPerDay),
            warmingTime = DateAt (w - 30 * msPerMinute - msPerDay)\<rparr>
           (DateAt now)"
      by (simp add: s0_def s1_def)
    moreover have len: "b - (b - msPerHour) \<le> 12 * msPerHour"
      "b + msPerHour - b \<le> 12 * msPerHour"
      "w - 2 * msPerHour - (b + msPerHour) \<le> 12 * msPerHour"
      "w - 30 * msPerMinute - (w - 2 * msPerHour) \<le> 12 * msPerHour"
      "w - (w - 30 * msPerMinute) \<le> 12 * msPerHour"
      using early by (simp_all add: w_def msPerHour_def msPerMinute_def)
    ultimately have "inWindow tag c (DateAt now)"
      unfolding c_def sh_def using win
      by (intro rolled_window_complete [OF order(1-5) len]) simp_all
    then show ?thesis by (simp add: stage stage_route)
  qed
  have S1: "\<forall>t tag. (currentSleepStage (DateAt t) c = tag) = inWindow tag c (DateAt t)"
    and S2: "\<forall>t tag. (currentSleepStage_route (DateAt t) c = tag) = inWindow tag c (DateAt t)"
    and U: "\<forall>t. \<exists>!tag. inWindow tag c (DateAt t)"
    using stage stage_route uniq by simp_all
  have A: "\<forall>tag. tag \<noteq> OutsideSleepCycle \<and> currentSleepStage (DateAt now) c = tag \<longrightarrow>
             inWindow tag (scheduleOn (startOfDay now) bedStr wakeStr) (DateAt now)
             \<or> inWindow tag (scheduleOn (startOfDay now - msPerDay) bedStr wakeStr) (DateAt now)"
    by (intro allI impI) (rule sound)
  have B: "msPerHour \<le> clockMs bedStr \<and> sleepSpan bedStr wakeStr \<le> 15 * msPerHour \<longrightarrow>
             (\<forall>day tag. day mod msPerDay = 0 \<and> tag \<noteq> OutsideSleepCycle
                 \<and> inWindow tag (scheduleOn day bedStr wakeStr) (DateAt now) \<longrightarrow>
               currentSleepStage (DateAt now) c = tag
               \<and> currentSleepStage_route (DateAt now) c = tag)"
    by (intro allI impI) (rule complete)
  show ?thesis
    by (rule exI [of _ c]) (intro conjI cyc cyc_route S1 S2 U A B)
qed

theorem stage_windows_partition_witness:
  "validClock ''22:00'' \<and> validClock ''06:00''
   \<and> 3 * msPerHour \<le> sleepSpan ''22:00'' ''06:00''
   \<and> sleepSpan ''22:00'' ''06:00'' \<le> 23 * msPerHour
   \<and> msPerHour \<le> clockMs ''22:00''
   \<and> sleepSpan ''22:00'' ''06:00'' \<le> 15 * msPerHour
   \<and> (1699920000000 :: int) mod msPerDay = 0
   \<and> inWindow Initial (scheduleOn 1699920000000 ''22:00'' ''06:00'') (DateAt 1699999500000)
   \<and> (\<exists>c. cycleAt (DateAt 1699999500000) ''22:00'' ''06:00'' = Inr c
          \<and> bedTime c = DateAt 1699999200000
          \<and> currentSleepStage (DateAt 1699999500000) c = Initial
          \<and> currentSleepStage_route (DateAt 1699999500000) c = Initial
          \<and> inWindow Initial c (DateAt 1699999500000)
          \<and> (\<exists>!tag. inWindow tag c (DateAt 1699999500000))
          \<and> inWindow Initial (scheduleOn (startOfDay 1699999500000) ''22:00'' ''06:00'')
               (DateAt 1699999500000))"
proof -
  let ?c = "\<lparr>preHeatingTime = DateAt 1699995600000, bedTime = DateAt 1699999200000,
          midStageTime = DateAt 1700002800000, finalStageTime = DateAt 1700020800000,
          wakeupTime = DateAt 1700028000000, warmingTime = DateAt 1700026200000\<rparr>"
  have v: "validClock ''22:00''" "validClock ''06:00''"
    by (simp_all add: validClock_def clockFields_def isDecDigit_def digitVal_def)
  have a: "anchoredOn 1699999500000 ''22:00'' = 1699999200000"
    "sleepSpan ''22:00'' ''06:00'' = 28800000" "clockMs ''22:00'' = 79200000"
    by (simp_all add: anchoredOn_def sleepSpan_def startOfDay_def clockMs_def clockFields_def
        isDecDigit_def digitVal_def msPerDay_def msPerHour_def msPerMinute_def)
  have s: "3 * msPerHour \<le> sleepSpan ''22:00'' ''06:00''"
    "sleepSpan ''22:00'' ''06:00'' \<le> 23 * msPerHour"
    by (simp_all add: a msPerHour_def)
  have e: "msPerHour \<le> clockMs ''22:00'' \<and> sleepSpan ''22:00'' ''06:00'' \<le> 15 * msPerHour"
    by (simp add: a msPerHour_def)
  have d: "(1699920000000 :: int) mod msPerDay = 0" "startOfDay 1699999500000 = 1699920000000"
    by (simp_all add: msPerDay_def startOfDay_def)
  have sch: "inWindow Initial (scheduleOn 1699920000000 ''22:00'' ''06:00'') (DateAt 1699999500000)"
    by (simp add: inWindow_def scheduleOn_def Let_def a dateGreaterEq_def dateLessEq_def
        dateLess_def msPerHour_def)
  have c: "cycleAt (DateAt 1699999500000) ''22:00'' ''06:00'' = Inr ?c"
    by (simp add: cycleAt_def createSleepCycle_valid(1) [OF v] a orThrow_def adjustedCycle_def
        adjustTimeToCurrentCycle_valid Let_def msPerDay_def msPerHour_def msPerMinute_def)
  from stage_windows_partition [OF v s, of 1699999500000] obtain c' where
    p: "cycleAt (DateAt 1699999500000) ''22:00'' ''06:00'' = Inr c'"
    and st: "\<forall>t tag. (currentSleepStage (DateAt t) c' = tag) = inWindow tag c' (DateAt t)"
    and un: "\<forall>t. \<exists>!tag. inWindow tag c' (DateAt t)"
    and nogap: "msPerHour \<le> clockMs ''22:00'' \<and> sleepSpan ''22:00'' ''06:00'' \<le> 15 * msPerHour \<longrightarrow>
        (\<forall>day tag. day mod msPerDay = 0 \<and> tag \<noteq> OutsideSleepCycle
            \<and> inWindow tag (scheduleOn day ''22:00'' ''06:00'') (DateAt 1699999500000) \<longrightarrow>
          currentSleepStage (DateAt 1699999500000) c' = tag
          \<and> currentSleepStage_route (DateAt 1699999500000) c' = tag)"
    by (elim exE conjE)
  from p c have eq: "c' = ?c" by simp
  have "currentSleepStage (DateAt 1699999500000) c' = Initial
        \<and> currentSleepStage_route (DateAt 1699999500000) c' = Initial"
    by (rule nogap [rule_format, OF e, of 1699920000000]) (simp add: d(1) sch)
  then have stg: "currentSleepStage (DateAt 1699999500000) c' = Initial"
    "currentSleepStage_route (DateAt 1699999500000) c' = Initial"
    by simp_all
  from st stg(1) have win: "inWindow Initial c' (DateAt 1699999500000)" by simp
  from un have u: "\<exists>!tag. inWindow tag c' (DateAt 1699999500000)" ..
  have b: "bedTime c' = DateAt 1699999200000" by (simp add: eq)
  from v s e d sch p b stg win u show ?thesis by simp
qed

section \<open>Parsing clock strings\<close>

lemma empty_field: "jsNumber [] = Num 0"
  by (simp add: jsNumber_def trimString_def)

text \<open>
  Claim C9 against \<^verbatim>\<open>part_000\<close>. \<^verbatim>\<open>createDateWithTime\<close> tests each field of the
  string for \<^verbatim>\<open>undefined\<close>, for NaN and for its range, and throws
  \<^verbatim>\<open>Invalid time string\<close> otherwise; but \<^verbatim>\<open>Number("")\<close> is 0, so a string with an
  empty field passes these tests. The string \<^verbatim>\<open>":"\<close>, which has neither an hour nor a
  minute, is read as 00:00 of the base date, and \<^verbatim>\<open>"22:"\<close>, which has no minute, as
  22:00, where parsing a malformed clock string has to fail.
\<close>

theorem empty_fields_accepted:
  "map jsNumber (splitColon '':'') = [Num 0, Num 0]
   \<and> createDateWithTime (DateAt t) '':'' = Inr (DateAt (startOfDay t))
   \<and> createDateWithTime (DateAt 1700001900000) ''22:'' = Inr (DateAt 1699999200000)
   \<and> \<not> validClock '':'' \<and> \<not> validClock ''22:''"
proof -
  have d: "isDecDigit CHR ''2''" by (simp add: isDecDigit_def)
  have n: "jsNumber ''22'' = Num 22"
    using jsNumber_two_digits [OF d d] by (simp add: digitVal_def)
  have t: "truncRat 22 = 22" "truncRat 0 = 0" by (simp_all add: truncRat_def)
  have s: "splitColon '':'' = [[], []]" "splitColon ''22:'' = [''22'', []]"
    by simp_all
  show ?thesis
    by (simp add: createDateWithTime_def s empty_field n isNaN_def numLess_def numGreater_def
        setHours4_def finiteInteger_def t startOfDay_def msPerDay_def msPerHour_def
        msPerMinute_def validClock_def clockFields_def)
qed

text \<open>
  The same tests do reject a string without a colon and an hour above 23.
\<close>

lemma validation_rejects:
  "createDateWithTime base ''22h30'' = Inl (InvalidTimeString ''22h30'')
   \<and> createDateWithTime base ''25:00'' = Inl (InvalidTimeString ''25:00'')"
proof -
  have d: "isDecDigit CHR ''2''" "isDecDigit CHR ''5''" "isDecDigit CHR ''0''"
    by (simp_all add: isDecDigit_def)
  have n: "jsNumber ''25'' = Num 25" "jsNumber ''00'' = Num 0"
    using jsNumber_two_digits [OF d(1) d(2)] jsNumber_two_digits [OF d(3) d(3)]
    by (simp_all add: digitVal_def)
  have s: "splitColon ''22h30'' = [''22h30'']" "splitColon ''25:00'' = [''25'', ''00'']"
    by simp_all
  show ?thesis
    by (simp add: createDateWithTime_def s n isNaN_def numLess_def numGreater_def)
qed

text \<open>
  \<^verbatim>\<open>route.ts\<close> has no test of the range and \<^verbatim>\<open>part_002\<close> no test at all: both read
  \<^verbatim>\<open>"25:00"\<close> as 01:00 of the day after the base date.
\<close>

lemma range_unchecked:
  "createDateWithTime_route (DateAt 1700001900000) ''25:00'' = Inr (DateAt 1700010000000)
   \<and> createDateWithTime_p2 (DateAt 1700001900000) ''25:00'' = DateAt 1700010000000
   \<and> \<not> validClock ''25:00''"
proof -
  have d: "isDecDigit CHR ''2''" "isDecDigit CHR ''5''" "isDecDigit CHR ''0''"
    by (simp_all add: isDecDigit_def)
  have n: "jsNumber ''25'' = Num 25" "jsNumber ''00'' = Num 0"
    using jsNumber_two_digits [OF d(1) d(2)] jsNumber_two_digits [OF d(3) d(3)]
    by (simp_all add: digitVal_def)
  have t: "truncRat 25 = 25" "truncRat 0 = 0" by (simp_all add: truncRat_def)
  show ?thesis
    by (simp add: createDateWithTime_route_def createDateWithTime_p2_def
        n isNaN_def numLess_def numGreater_def setHours4_def finiteInteger_def t
        startOfDay_def msPerDay_def msPerHour_def msPerMinute_def validClock_def clockFields_def
        isDecDigit_def digitVal_def)
qed


section \<open>Actions, retries and the calls they make\<close>

declare retryLoop.simps [simp del]

lemma succeed_apply: "succeed v tr = (Inr v, tr)"
  by (simp add: succeed_def)

lemma throw_apply: "throw e tr = (Inl e, tr)"
  by (simp add: throw_def)

lemma fromResult_apply: "fromResult r tr = (r, tr)"
  by (simp add: fromResult_def)

lemma perform_apply: "perform c answer tr = (answer tr, tr @ [c])"
  by (simp add: perform_def)

lemma andThen_Inr: "m tr = (Inr v, tr') \<Longrightarrow> andThen m f tr = f v tr'"
  by (simp add: andThen_def)

lemma andThen_Inl: "m tr = (Inl e, tr') \<Longrightarrow> andThen m f tr = (Inl e, tr')"
  by (simp add: andThen_def)

lemma tryCatch_Inr: "m tr = (Inr v, tr') \<Longrightarrow> tryCatch m h tr = (Inr v, tr')"
  by (simp add: tryCatch_def)

lemma tryCatch_Inl: "m tr = (Inl e, tr') \<Longrightarrow> tryCatch m h tr = h e tr'"
  by (simp add: tryCatch_def)

text \<open>
  \<^verbatim>\<open>retryApiCall\<close> on a collaborator call: one step of the loop, then the three ways three
  attempts can go. The delays are 1000 ms and 2000 ms, and after the third failure the
  last error is thrown without another attempt.
\<close>

lemma retryLoop_perform:
  "retryLoop (perform c answer) retries i tr =
     (if i < retries then
        (case answer tr of
           Inr v \<Rightarrow> (Inr v, tr @ [c])
         | Inl e \<Rightarrow>
             if i = retries - 1 then (Inl e, tr @ [c])
             else retryLoop (perform c answer) retries (i + 1)
                    (tr @ [c, SetTimeout (1000 * 2 ^ nat i)]))
      else (Inl RetryFailed, tr))"
  by (subst retryLoop.simps) (simp add: perform_def split: sum.splits)

lemma retry_first_try:
  "answer tr = Inr v \<Longrightarrow> retryApiCall (perform c answer) 3 tr = (Inr v, tr @ [c])"
  by (simp add: retryApiCall_def retryLoop_perform)

lemma retry_second_try:
  "answer tr = Inl e \<Longrightarrow> answer (tr @ [c, SetTimeout 1000]) = Inr v \<Longrightarrow>
     retryApiCall (perform c answer) 3 tr = (Inr v, tr @ [c, SetTimeout 1000, c])"
  by (simp add: retryApiCall_def retryLoop_perform [of _ _ _ 0] retryLoop_perform [of _ _ _ 1])

lemma retry_third_try:
  assumes "answer tr = Inl e1" "answer (tr @ [c, SetTimeout 1000]) = Inl e2"
    "answer (tr @ [c, SetTimeout 1000, c, SetTimeout 2000]) = Inr v"
  shows "retryApiCall (perform c answer) 3 tr
           = (Inr v, tr @ [c, SetTimeout 1000, c, SetTimeout 2000, c])"
  using assms
  by (simp add: retryApiCall_def retryLoop_perform [of _ _ _ 0] retryLoop_perform [of _ _ _ 1]
      retryLoop_perform [of _ _ _ 2])

lemma retry_exhausted:
  assumes "answer tr = Inl e1" "answer (tr @ [c, SetTimeout 1000]) = Inl e2"
    "answer (tr @ [c, SetTimeout 1000, c, SetTimeout 2000]) = Inl e3"
  shows "retryApiCall (perform c answer) 3 tr
           = (Inl e3, tr @ [c, SetTimeout 1000, c, SetTimeout 2000, c])"
  using assms
  by (simp add: retryApiCall_def retryLoop_perform [of _ _ _ 0] retryLoop_perform [of _ _ _ 1]
      retryLoop_perform [of _ _ _ 2])

text \<open>
  Whatever the collaborator answers, a retried call only adds attempts of that call and
  timeouts, and at least one attempt.
\<close>

lemma retryLoop_calls:
  "\<exists>ext. snd (retryLoop (perform c answer) retries i tr) = tr @ ext
         \<and> set ext \<subseteq> insert c (range SetTimeout)
         \<and> (i < retries \<longrightarrow> c \<in> set ext)"
proof (induction "nat (retries - i)" arbitrary: i tr)
  case 0
  then have "\<not> i < retries" by simp
  then show ?case by (simp add: retryLoop_perform [of c answer retries i tr])
next
  case (Suc k)
  then have lt: "i < retries" by simp
  note step = retryLoop_perform [of c answer retries i tr]
  show ?case
  proof (cases "answer tr")
    case (Inr v)
    with lt show ?thesis unfolding step by simp
  next
    case (Inl e)
    show ?thesis
    proof (cases "i = retries - 1")
      case True
      have "snd (retryLoop (perform c answer) retries i tr) = tr @ [c]"
        unfolding step using lt Inl True by simp
      then show ?thesis by simp
    next
      case False
      have "k = nat (retries - (i + 1))" using Suc.hyps(2) by simp
      from Suc.hyps(1) [OF this, of "tr @ [c, SetTimeout (1000 * 2 ^ nat i)]"]
      obtain ext where ext:
        "snd (retryLoop (perform c answer) retries (i + 1)
               (tr @ [c, SetTimeout (1000 * 2 ^ nat i)]))
           = (tr @ [c, SetTimeout (1000 * 2 ^ nat i)]) @ ext"
        "set ext \<subseteq> insert c (range SetTimeout)"
        by auto
      have "snd (retryLoop (perform c answer) retries i tr)
              = tr @ (c # SetTimeout (1000 * 2 ^ nat i) # ext)"
        unfolding step using lt False Inl ext(1) by simp
      moreover have "set (c # SetTimeout (1000 * 2 ^ nat i) # ext) \<subseteq> insert c (range SetTimeout)"
        using ext(2) by auto
      ultimately show ?thesis by (metis list.set_intros(1))
    qed
  qed
qed

lemma retryApiCall_calls:
  "set (callsMade tr (retryApiCall (perform c answer) 3)) \<subseteq> insert c (range SetTimeout)
   \<and> c \<in> set (callsMade tr (retryApiCall (perform c answer) 3))"
  using retryLoop_calls [of c answer 3 0 tr]
  by (auto simp: callsMade_def retryApiCall_def)

lemma callsMade_succeed [simp]: "callsMade tr (succeed v) = []"
  by (simp add: callsMade_def succeed_def)


lemma emitsOnly_perform: "c \<in> S \<Longrightarrow> emitsOnly S (perform c answer)"
  by (simp add: emitsOnly_def perform_def)






text \<open>
  The sample worlds, field by field, and the cycles of the sample profiles.
\<close>

lemmas action_defs = andThen_def tryCatch_def perform_def succeed_def throw_def fromResult_def
  currentInstant_def testEnabled_def callGetCurrentHeatingStatus_def callTurnOnSide_def
  callTurnOffSide_def callSetHeatingLevel_def

lemmas date_defs = isWithinTimeRange_def msBetween_def dateGreater_def dateGreaterEq_def
  dateLessEq_def dateLess_def

lemmas sample_defs = sampleWorld_def sampleProfile_def sampleUser_def sampleToken_def tokenOf_def

lemma sampleProfile_fields:
  "tokenOf (users (sampleProfile expiry bed wake)) = sampleToken expiry"
  "eightUserId (users (sampleProfile expiry bed wake)) = ''user-1''"
  "bedTimeStr (userTemperatureProfiles (sampleProfile expiry bed wake)) = bed"
  "wakeupTimeStr (userTemperatureProfiles (sampleProfile expiry bed wake)) = wake"
  "initialSleepLevel (userTemperatureProfiles (sampleProfile expiry bed wake)) = 2"
  "midStageSleepLevel (userTemperatureProfiles (sampleProfile expiry bed wake)) = - 1"
  "finalSleepLevel (userTemperatureProfiles (sampleProfile expiry bed wake)) = 1"
  "eightExpiresAtPosix (sampleToken expiry) = expiry"
  by (simp_all add: sample_defs)

lemma sample_clocks:
  "validClock ''22:00''" "validClock ''06:00''" "validClock ''13:00''" "validClock ''15:00''"
  "clockMs ''22:00'' = 79200000" "clockMs ''06:00'' = 21600000"
  "clockMs ''13:00'' = 46800000" "clockMs ''15:00'' = 54000000"
  by (simp_all add: validClock_def clockMs_def clockFields_def isDecDigit_def digitVal_def
      msPerHour_def msPerMinute_def)

lemma createSleepCycle_p1_valid:
  assumes "validClock bedStr" "validClock wakeStr"
  shows "createSleepCycle_p1 (DateAt now) bedStr wakeStr =
           Inr \<lparr>preHeatingTime = DateAt (anchoredOn now bedStr - 3 * msPerHour),
            bedTime = DateAt (anchoredOn now bedStr),
            midStageTime = DateAt (anchoredOn now bedStr + msPerHour),
            finalStageTime = DateAt (anchoredOn now bedStr + sleepSpan bedStr wakeStr - 2 * msPerHour),
            wakeupTime = DateAt (anchoredOn now bedStr + sleepSpan bedStr wakeStr)\<rparr>"
  by (simp add: createSleepCycle_p1_def Let_def orThrow_def
      createDateWithTime_anchored assms setHours1_getHours dateLessEq_def addDays_def plusMs_def
      sleepSpan_def anchoredOn_def msPerHour_def msPerMinute_def)

lemma createSleepCycle_p2_valid:
  assumes "validClock bedStr" "validClock wakeStr"
  shows "createSleepCycle_p2 (DateAt now) bedStr wakeStr =
           \<lparr>preHeatingTime = DateAt (anchoredOn now bedStr - 3 * msPerHour),
            bedTime = DateAt (anchoredOn now bedStr),
            midStageTime = DateAt (anchoredOn now bedStr + msPerHour),
            finalStageTime = DateAt (anchoredOn now bedStr + sleepSpan bedStr wakeStr - 2 * msPerHour),
            wakeupTime = DateAt (anchoredOn now bedStr + sleepSpan bedStr wakeStr)\<rparr>"
  by (simp add: createSleepCycle_p2_def Let_def
      createDateWithTime_anchored assms setHours1_getHours dateLessEq_def addDays_def plusMs_def
      sleepSpan_def anchoredOn_def msPerHour_def msPerMinute_def)

lemma evening_cycle:
  "createSleepCycle_route (DateAt 1699999500000) ''22:00'' ''06:00'' =
     Inr \<lparr>preHeatingTime = DateAt 1699995600000, bedTime = DateAt 1699999200000,
          midStageTime = DateAt 1700002800000, finalStageTime = DateAt 1700020800000,
          wakeupTime = DateAt 1700028000000, warmingTime = DateAt 1700026200000\<rparr>"
  "createSleepCycle (DateAt 1699999500000) ''22:00'' ''06:00'' =
     Inr \<lparr>preHeatingTime = DateAt 1699995600000, bedTime = DateAt 1699999200000,
          midStageTime = DateAt 1700002800000, finalStageTime = DateAt 1700020800000,
          wakeupTime = DateAt 1700028000000, warmingTime = DateAt 1700026200000\<rparr>"
  "adjustedCycle (DateAt 1699999500000)
     \<lparr>preHeatingTime = DateAt 1699995600000, bedTime = DateAt 1699999200000,
      midStageTime = DateAt 1700002800000, finalStageTime = DateAt 1700020800000,
      wakeupTime = DateAt 1700028000000, warmingTime = DateAt 1700026200000\<rparr>
   = \<lparr>preHeatingTime = DateAt 1699995600000, bedTime = DateAt 1699999200000,
      midStageTime = DateAt 1700002800000, finalStageTime = DateAt 1700020800000,
      wakeupTime = DateAt 1700028000000, warmingTime = DateAt 1700026200000\<rparr>"
  by (simp_all add: createSleepCycle_valid sample_clocks anchoredOn_def sleepSpan_def
      startOfDay_def adjustedCycle_def adjustTimeToCurrentCycle_valid Let_def
      msPerDay_def msPerHour_def msPerMinute_def)

lemma morning_cycle:
  "cycleAt (DateAt 1699945200000) ''22:00'' ''06:00'' =
     Inr \<lparr>preHeatingTime = DateAt 1699909200000, bedTime = DateAt 1699912800000,
          midStageTime = DateAt 1699916400000, finalStageTime = DateAt 1699934400000,
          wakeupTime = DateAt 1699941600000, warmingTime = DateAt 1699939800000\<rparr>"
  "cycleAt_route (DateAt 1699945200000) ''22:00'' ''06:00'' =
     Inr \<lparr>preHeatingTime = DateAt 1699909200000, bedTime = DateAt 1699912800000,
          midStageTime = DateAt 1699916400000, finalStageTime = DateAt 1699934400000,
          wakeupTime = DateAt 1699941600000, warmingTime = DateAt 1699939800000\<rparr>"
  "cycleAt (DateAt 1699941900000) ''22:00'' ''06:00'' =
     Inr \<lparr>preHeatingTime = DateAt 1699909200000, bedTime = DateAt 1699912800000,
          midStageTime = DateAt 1699916400000, finalStageTime = DateAt 1699934400000,
          wakeupTime = DateAt 1699941600000, warmingTime = DateAt 1699939800000\<rparr>"
  "cycleAt (DateAt 1699923600000) ''22:00'' ''06:00'' =
     Inr \<lparr>preHeatingTime = DateAt 1699909200000, bedTime = DateAt 1699912800000,
          midStageTime = DateAt 1699916400000, finalStageTime = DateAt 1699934400000,
          wakeupTime = DateAt 1699941600000, warmingTime = DateAt 1699939800000\<rparr>"
  by (simp_all add: cycleAt_def cycleAt_route_def orThrow_def createSleepCycle_valid sample_clocks
      anchoredOn_def sleepSpan_def startOfDay_def adjustedCycle_def
      adjustTimeToCurrentCycle_valid Let_def msPerDay_def msPerHour_def msPerMinute_def)

lemma flakyEvening_fields:
  "selectProfiles flakyEvening
     = (\<lambda>tr. Inr [sampleProfile (DateAt 1800000000000) ''22:00'' ''06:00''])"
  "getCurrentHeatingStatus flakyEvening
     = (\<lambda>tr token. Inr \<lparr>isHeating = False, heatingLevel = 0\<rparr>)"
  "turnOnSide flakyEvening = flakyTurnOn"
  "setHeatingLevel flakyEvening = (\<lambda>tr token userId level. Inr ())"
  "currentDate flakyEvening = (\<lambda>tr. DateAt 1699999500000)"
  "toLocaleDate flakyEvening = (\<lambda>d tz. Inr d)"
  by (simp_all add: flakyEvening_def sampleWorld_def)

lemma databaseDown_fields:
  "selectProfiles databaseDown = failingSelect"
  by (simp add: databaseDown_def)


lemma coldMorning_fields:
  "selectProfiles coldMorning
     = (\<lambda>tr. Inr [sampleProfile (DateAt 1800000000000) ''22:00'' ''06:00''])"
  "getCurrentHeatingStatus coldMorning
     = (\<lambda>tr token. Inr \<lparr>isHeating = False, heatingLevel = 0\<rparr>)"
  "turnOffSide coldMorning = (\<lambda>tr token userId. Inr ())"
  "currentDate coldMorning = (\<lambda>tr. DateAt 1699945200000)"
  "toLocaleDate coldMorning = (\<lambda>d tz. Inr d)"
  by (simp_all add: coldMorning_def sampleWorld_def)

lemma afterNap_fields:
  "selectProfiles afterNap
     = (\<lambda>tr. Inr [sampleProfile (DateAt 1800000000000) ''13:00'' ''15:00''])"
  "getCurrentHeatingStatus afterNap
     = (\<lambda>tr token. Inr \<lparr>isHeating = False, heatingLevel = 0\<rparr>)"
  "turnOffSide afterNap = (\<lambda>tr token userId. Inr ())"
  "currentDate afterNap = (\<lambda>tr. DateAt 1699977600000)"
  "toLocaleDate afterNap = (\<lambda>d tz. Inr d)"
  by (simp_all add: afterNap_def sampleWorld_def)

lemma warmMorning_fields:
  "getCurrentHeatingStatus warmMorning
     = (\<lambda>tr token. Inr \<lparr>isHeating = True, heatingLevel = 1\<rparr>)"
  "turnOffSide warmMorning = (\<lambda>tr token userId. Inr ())"
  by (simp_all add: warmMorning_def sampleWorld_def)

section \<open>Test mode\<close>

lemma currentInstant_test:
  "currentInstant w (Some \<lparr>enabled = True, currentTime = t\<rparr>) tr = (Inr t, tr)"
  by (simp add: currentInstant_def)

lemma refreshToken_test:
  "testEnabled testMode \<Longrightarrow> refreshToken w testMode now u token tr = (Inr token, tr)"
  by (simp add: refreshToken_def succeed_def)

lemma readHeatingStatus_test:
  "testEnabled testMode \<Longrightarrow>
     readHeatingStatus w testMode token tr = (Inr \<lparr>isHeating = False, heatingLevel = 0\<rparr>, tr)"
  by (simp add: readHeatingStatus_def succeed_def)

lemma actuate_test:
  "testEnabled testMode \<Longrightarrow>
     actuate w testMode token userId prof userNow c status tr = (Inr (), tr)"
  by (simp add: actuate_def andThen_def succeed_def Let_def)

lemma processProfile_test:
  assumes "testEnabled testMode"
  shows "snd (processProfile w testMode profile tr) = tr"
proof -
  obtain now where n: "currentInstant w testMode tr = (Inr now, tr)"
    by (simp add: currentInstant_def)
  show ?thesis
    unfolding processProfile_def
    by (simp add: andThen_def n refreshToken_test [OF assms] readHeatingStatus_test [OF assms]
        actuate_test [OF assms] fromResult_def Let_def split: sum.splits)
qed

lemma forEachProfile_silent:
  assumes "\<And>profile tr. snd (body profile tr) = tr"
  shows "snd (forEachProfile (\<lambda>profile. tryCatch (body profile) (\<lambda>e. succeed ())) profiles tr) = tr
         \<and> fst (forEachProfile (\<lambda>profile. tryCatch (body profile) (\<lambda>e. succeed ())) profiles tr) = Inr ()"
proof (induction profiles arbitrary: tr)
  case Nil
  show ?case by (simp add: succeed_def)
next
  case (Cons p ps)
  obtain r where r: "body p tr = (r, tr)"
    using assms [of p tr] by (cases "body p tr") simp
  have tc: "tryCatch (body p) (\<lambda>e. succeed ()) tr = (Inr (), tr)"
    by (cases r) (simp_all add: tryCatch_def r succeed_def)
  show ?case
    using Cons.IH [of tr] by (simp add: andThen_def tc)
qed

text \<open>
  Claim C10. When test mode is enabled, the run makes no call to a collaborator other
  than the profile query: whatever the collaborators would answer and whatever the rows
  hold, the calls of the run are exactly that query. The status read is replaced by the
  fixed state \<^verbatim>\<open>{ isHeating: false, heatingLevel: 0 }\<close>, and the token refresh with its
  write-back is skipped, also for a token that has expired.
\<close>

theorem test_mode_only_fetches:
  "adjustTemperature w (Some \<lparr>enabled = True, currentTime = t\<rparr>) tr
     = (case selectProfiles w tr of Inl e \<Rightarrow> Inl e | Inr profiles \<Rightarrow> Inr (), tr @ [SelectProfiles])
   \<and> readHeatingStatus w (Some \<lparr>enabled = True, currentTime = t\<rparr>) token tr
     = (Inr \<lparr>isHeating = False, heatingLevel = 0\<rparr>, tr)
   \<and> refreshToken w (Some \<lparr>enabled = True, currentTime = t\<rparr>) now u token tr = (Inr token, tr)"
proof -
  let ?tm = "Some \<lparr>enabled = True, currentTime = t\<rparr>"
  have en: "testEnabled ?tm" by (simp add: testEnabled_def)
  have loop: "forEachProfile (\<lambda>profile. tryCatch (processProfile w ?tm profile) (\<lambda>e. succeed ()))
                profiles tr' = (Inr (), tr')" for profiles tr'
    using forEachProfile_silent [of "processProfile w ?tm" profiles tr']
      processProfile_test [OF en]
    by (simp add: prod_eq_iff)
  have "adjustTemperature w ?tm tr
     = (case selectProfiles w tr of Inl e \<Rightarrow> Inl e | Inr profiles \<Rightarrow> Inr (), tr @ [SelectProfiles])"
  proof (cases "selectProfiles w tr")
    case (Inl e)
    then show ?thesis
      by (simp add: adjustTemperature_def tryCatch_def andThen_def perform_def throw_def)
  next
    case (Inr profiles)
    have "andThen (perform SelectProfiles (selectProfiles w))
            (\<lambda>profiles. forEachProfile
               (\<lambda>profile. tryCatch (processProfile w ?tm profile) (\<lambda>error. succeed ()))
               profiles) tr = (Inr (), tr @ [SelectProfiles])"
      by (simp add: andThen_def perform_def Inr loop)
    then show ?thesis
      unfolding adjustTemperature_def by (simp add: tryCatch_Inr Inr)
  qed
  then show ?thesis
    using readHeatingStatus_test [OF en] refreshToken_test [OF en] by simp
qed

theorem test_mode_only_fetches_witness:
  "adjustTemperature
     (sampleWorld [sampleProfile (DateAt 0) ''22:00'' ''06:00''] 1699999500000
        \<lparr>isHeating = False, heatingLevel = 0\<rparr>)
     (Some \<lparr>enabled = True, currentTime = DateAt 1699999500000\<rparr>) []
   = (Inr (), [SelectProfiles])
   \<and> dateGreater (DateAt 1699999500000) (eightExpiresAtPosix (sampleToken (DateAt 0)))"
  using test_mode_only_fetches
    [where w = "sampleWorld [sampleProfile (DateAt 0) ''22:00'' ''06:00''] 1699999500000
                  \<lparr>isHeating = False, heatingLevel = 0\<rparr>"
       and t = "DateAt 1699999500000" and tr = "[]"]
  by (simp add: sampleWorld_def sampleToken_def dateGreater_def dateLess_def)

text \<open>
  The other versions make no call but the profile query in test mode either.
\<close>

lemma actuate_route_test:
  "testEnabled testMode \<Longrightarrow>
     actuate_route w testMode token userId prof userNow c tr = (Inr (), tr)"
  by (simp add: actuate_route_def succeed_def Let_def)

lemma actuate_p1_test:
  "testEnabled testMode \<Longrightarrow>
     actuate_p1 w testMode token userId prof userNow c status tr = (Inr (), tr)"
  by (simp add: actuate_p1_def andThen_def succeed_def split: option.splits)

lemma actuate_p2_test:
  "testEnabled testMode \<Longrightarrow>
     actuate_p2 w testMode token userId prof userNow c tr = (Inr (), tr)"
  by (simp add: actuate_p2_def succeed_def split: option.splits)

lemma processProfile_other_versions_test:
  assumes "testEnabled testMode"
  shows "snd (processProfile_route w testMode profile tr) = tr"
    and "snd (processProfile_p1 w testMode profile tr) = tr"
    and "snd (processProfile_p2 w testMode profile tr) = tr"
proof -
  obtain now where n: "currentInstant w testMode tr = (Inr now, tr)"
    by (simp add: currentInstant_def)
  show "snd (processProfile_route w testMode profile tr) = tr"
    unfolding processProfile_route_def
    by (simp add: andThen_def n actuate_route_test [OF assms] fromResult_def Let_def
        split: sum.splits)
  show "snd (processProfile_p1 w testMode profile tr) = tr"
    unfolding processProfile_p1_def
    by (simp add: andThen_def n readHeatingStatus_test [OF assms] actuate_p1_test [OF assms]
        fromResult_def Let_def split: sum.splits)
  show "snd (processProfile_p2 w testMode profile tr) = tr"
    unfolding processProfile_p2_def
    by (simp add: andThen_def n refreshToken_test [OF assms] actuate_p2_test [OF assms]
        fromResult_def Let_def split: sum.splits)
qed

lemma silent_loop:
  assumes "\<And>profile tr. snd (body profile tr) = tr"
  shows "snd (andThen (perform SelectProfiles (selectProfiles w))
           (\<lambda>profiles. forEachProfile
              (\<lambda>profile. tryCatch (body profile) (\<lambda>e. succeed ())) profiles) tr)
         = tr @ [SelectProfiles]"
proof (cases "selectProfiles w tr")
  case (Inl e)
  then show ?thesis by (simp add: andThen_def perform_def)
next
  case (Inr profiles)
  from forEachProfile_silent [of body profiles "tr @ [SelectProfiles]"] assms
  have "snd (forEachProfile (\<lambda>profile. tryCatch (body profile) (\<lambda>e. succeed ())) profiles
               (tr @ [SelectProfiles])) = tr @ [SelectProfiles]" by simp
  with Inr show ?thesis by (simp add: andThen_def perform_def)
qed

lemma test_mode_other_versions:
  assumes "testEnabled testMode"
  shows "snd (adjustTemperature_route w testMode tr) = tr @ [SelectProfiles]"
    and "snd (adjustTemperature_p1 w testMode tr) = tr @ [SelectProfiles]"
    and "snd (adjustTemperature_p2 w testMode tr) = tr @ [SelectProfiles]"
proof -
  note silent = processProfile_other_versions_test [OF assms]
  have handled: "snd (tryCatch m (\<lambda>e. succeed ()) tr) = snd (m tr)" for m :: "unit action"
    by (cases "m tr"; cases "fst (m tr)") (simp_all add: tryCatch_def succeed_def)
  show "snd (adjustTemperature_route w testMode tr) = tr @ [SelectProfiles]"
    unfolding adjustTemperature_route_def handled
    by (rule silent_loop) (rule silent(1))
  show "snd (adjustTemperature_p1 w testMode tr) = tr @ [SelectProfiles]"
    unfolding adjustTemperature_p1_def handled
    by (rule silent_loop) (rule silent(2))
  show "snd (adjustTemperature_p2 w testMode tr) = tr @ [SelectProfiles]"
    unfolding adjustTemperature_p2_def
    by (rule silent_loop) (rule silent(3))
qed

section \<open>Actuation against the device state\<close>




text \<open>
  Claim C7, as stated, fails. \<^verbatim>\<open>part_002\<close> never reads the state of the device: an hour
  after the wake time of a nap from 13:00 to 15:00, with the device off, it sends a
  power-off call.
\<close>

theorem shutoff_without_status:
  "adjustTemperature_p2 afterNap None [] =
     (Inr (), [SelectProfiles, TurnOffSide (sampleToken (DateAt 1800000000000)) ''user-1''])
   \<and> getCurrentHeatingStatus afterNap [SelectProfiles] (sampleToken (DateAt 1800000000000))
       = Inr \<lparr>isHeating = False, heatingLevel = 0\<rparr>"
proof -
  let ?tok = "sampleToken (DateAt 1800000000000)"
  let ?nap = "sampleProfile (DateAt 1800000000000) ''13:00'' ''15:00''"
  let ?n = "\<lparr>preHeatingTime = DateAt 1699956000000, bedTime = DateAt 1699966800000,
          midStageTime = DateAt 1699970400000, finalStageTime = DateAt 1699966800000,
          wakeupTime = DateAt 1699974000000\<rparr>"
  have ncyc: "createSleepCycle_p2 (DateAt 1699977600000) ''13:00'' ''15:00'' = ?n"
    by (simp add: createSleepCycle_p2_valid sample_clocks anchoredOn_def sleepSpan_def
        startOfDay_def msPerDay_def msPerHour_def)
  have off: "retryApiCall (callTurnOffSide afterNap ?tok ''user-1'') 3 [SelectProfiles]
              = (Inr (), [SelectProfiles, TurnOffSide ?tok ''user-1''])"
    unfolding callTurnOffSide_def
    by (subst retry_first_try) (simp_all add: afterNap_fields)
  have nact: "actuate_p2 afterNap None ?tok ''user-1'' (userTemperatureProfiles ?nap)
               (DateAt 1699977600000) ?n [SelectProfiles]
             = (Inr (), [SelectProfiles, TurnOffSide ?tok ''user-1''])"
    unfolding actuate_p2_def
    by (simp add: targetLevel_p2_def isPreHeating_def isInitial_def isMid_def isFinal_def
        date_defs testEnabled_def off)
  have nprof: "processProfile_p2 afterNap None ?nap [SelectProfiles]
             = (Inr (), [SelectProfiles, TurnOffSide ?tok ''user-1''])"
    unfolding processProfile_p2_def Let_def
    by (simp add: andThen_def currentInstant_def fromResult_def afterNap_fields
        sampleProfile_fields refreshToken_def testEnabled_def succeed_def dateGreater_def
        dateLess_def ncyc nact)
  have nap: "adjustTemperature_p2 afterNap None [] =
     (Inr (), [SelectProfiles, TurnOffSide ?tok ''user-1''])"
    unfolding adjustTemperature_p2_def
    by (simp add: tryCatch_def andThen_def perform_def succeed_def afterNap_fields nprof)
  show ?thesis using nap by (simp add: afterNap_fields)
qed

text \<open>
  Claim C7, amended. In \<^verbatim>\<open>part_000\<close> and \<^verbatim>\<open>part_001\<close>, when no target is set (in
  \<^verbatim>\<open>part_000\<close>: no boundary, the wake time included, is within 15 minutes) and the
  reference instant is after the wake time, a power-off call is made if and only if the
  state read from the device (the fixed state in test mode) is heating. \<^verbatim>\<open>part_002\<close>,
  which has no read of the device state, makes the power-off call whenever no target is set
  and the reference instant is after the wake time, except in test mode.
\<close>

theorem shutoff_iff_heating:
  assumes "readHeatingStatus w testMode token tr0 = (Inr status, tr)"
  shows "(\<not> nearAnyBoundary userNow c \<and> dateGreater userNow (wakeupTime c) \<longrightarrow>
            (TurnOffSide token userId
               \<in> set (callsMade tr (actuate w testMode token userId prof userNow c status)))
            = isHeating status)
       \<and> (chooseTarget_p1 prof userNow c1 = None \<and> dateGreater userNow (wakeupTime c1) \<longrightarrow>
            (TurnOffSide token userId
               \<in> set (callsMade tr (actuate_p1 w testMode token userId prof userNow c1 status)))
            = isHeating status)
       \<and> (targetLevel_p2 prof userNow c1 = None \<and> dateGreater userNow (wakeupTime c1) \<longrightarrow>
            (TurnOffSide token userId
               \<in> set (callsMade tr (actuate_p2 w testMode token userId prof userNow c1)))
            = (\<not> testEnabled testMode))"
proof -
  have off: "TurnOffSide token userId
               \<in> set (callsMade tr (retryApiCall (callTurnOffSide w token userId) 3))"
    unfolding callTurnOffSide_def by (simp add: retryApiCall_calls)
  have p2: "targetLevel_p2 prof userNow c1 = None \<and> dateGreater userNow (wakeupTime c1) \<longrightarrow>
            (TurnOffSide token userId
               \<in> set (callsMade tr (actuate_p2 w testMode token userId prof userNow c1)))
            = (\<not> testEnabled testMode)"
    using off by (simp add: actuate_p2_def)
  have p01: "(\<not> nearAnyBoundary userNow c \<and> dateGreater userNow (wakeupTime c) \<longrightarrow>
            (TurnOffSide token userId
               \<in> set (callsMade tr (actuate w testMode token userId prof userNow c status)))
            = isHeating status)
       \<and> (chooseTarget_p1 prof userNow c1 = None \<and> dateGreater userNow (wakeupTime c1) \<longrightarrow>
            (TurnOffSide token userId
               \<in> set (callsMade tr (actuate_p1 w testMode token userId prof userNow c1 status)))
            = isHeating status)"
  proof (cases "isHeating status")
    case False
    then show ?thesis
      by (simp add: actuate_def actuate_p1_def)
  next
    case True
    have live: "\<not> testEnabled testMode"
    proof
      assume "testEnabled testMode"
      from readHeatingStatus_test [OF this, of w token tr0] assms True show False by simp
    qed
    have near: "isWithinTimeRange userNow (wakeupTime c) 15 \<Longrightarrow> nearAnyBoundary userNow c"
      by (simp add: nearAnyBoundary_def)
    show ?thesis
      using True live off near by (auto simp: actuate_def actuate_p1_def)
  qed
  show ?thesis
    by (rule conjI [OF p01 [THEN conjunct1] conjI [OF p01 [THEN conjunct2] p2]])
qed

theorem shutoff_iff_heating_witness:
  "readHeatingStatus warmMorning None (sampleToken (DateAt 1800000000000)) [SelectProfiles]
     = (Inr \<lparr>isHeating = True, heatingLevel = 1\<rparr>,
        [SelectProfiles, GetCurrentHeatingStatus (sampleToken (DateAt 1800000000000))])
   \<and> \<not> nearAnyBoundary (DateAt 1699945200000)
        \<lparr>preHeatingTime = DateAt 1699909200000, bedTime = DateAt 1699912800000,
         midStageTime = DateAt 1699916400000, finalStageTime = DateAt 1699934400000,
         wakeupTime = DateAt 1699941600000, warmingTime = DateAt 1699939800000\<rparr>
   \<and> dateGreater (DateAt 1699945200000) (DateAt 1699941600000)
   \<and> TurnOffSide (sampleToken (DateAt 1800000000000)) ''user-1''
       \<in> set (callsMade
                [SelectProfiles, GetCurrentHeatingStatus (sampleToken (DateAt 1800000000000))]
                (actuate warmMorning None (sampleToken (DateAt 1800000000000)) ''user-1''
                   (userTemperatureProfiles
                      (sampleProfile (DateAt 1800000000000) ''22:00'' ''06:00''))
                   (DateAt 1699945200000)
                   \<lparr>preHeatingTime = DateAt 1699909200000, bedTime = DateAt 1699912800000,
                    midStageTime = DateAt 1699916400000, finalStageTime = DateAt 1699934400000,
                    wakeupTime = DateAt 1699941600000, warmingTime = DateAt 1699939800000\<rparr>
                   \<lparr>isHeating = True, heatingLevel = 1\<rparr>))"
proof -
  let ?tok = "sampleToken (DateAt 1800000000000)"
  let ?c = "\<lparr>preHeatingTime = DateAt 1699909200000, bedTime = DateAt 1699912800000,
         midStageTime = DateAt 1699916400000, finalStageTime = DateAt 1699934400000,
         wakeupTime = DateAt 1699941600000, warmingTime = DateAt 1699939800000\<rparr>"
  have rd: "readHeatingStatus warmMorning None ?tok [SelectProfiles]
     = (Inr \<lparr>isHeating = True, heatingLevel = 1\<rparr>, [SelectProfiles, GetCurrentHeatingStatus ?tok])"
    unfolding readHeatingStatus_def callGetCurrentHeatingStatus_def
    by (simp add: testEnabled_def retry_first_try warmMorning_fields)
  have far: "\<not> nearAnyBoundary (DateAt 1699945200000) ?c"
    by (simp add: nearAnyBoundary_def date_defs)
  have after: "dateGreater (DateAt 1699945200000) (wakeupTime ?c)"
    by (simp add: date_defs)
  from shutoff_iff_heating [OF rd, where userNow = "DateAt 1699945200000" and c = ?c
      and userId = "''user-1''"
      and prof = "userTemperatureProfiles (sampleProfile (DateAt 1800000000000) ''22:00'' ''06:00'')"]
    rd far after
  show ?thesis by simp
qed

text \<open>
  \<^verbatim>\<open>route.ts\<close> reads the state of the device before it turns the device on, and not
  before it turns it off: at 07:00, an hour after the wake time, with the device off, it
  sends a power-off call.
\<close>

lemma route_shutoff_unguarded:
  "adjustTemperature_route coldMorning None [] =
     (Inr (), [SelectProfiles, TurnOffSide (sampleToken (DateAt 1800000000000)) ''user-1''])
   \<and> getCurrentHeatingStatus coldMorning [SelectProfiles] (sampleToken (DateAt 1800000000000))
       = Inr \<lparr>isHeating = False, heatingLevel = 0\<rparr>"
proof -
  let ?tok = "sampleToken (DateAt 1800000000000)"
  let ?row = "sampleProfile (DateAt 1800000000000) ''22:00'' ''06:00''"
  let ?c = "\<lparr>preHeatingTime = DateAt 1699909200000, bedTime = DateAt 1699912800000,
          midStageTime = DateAt 1699916400000, finalStageTime = DateAt 1699934400000,
          wakeupTime = DateAt 1699941600000, warmingTime = DateAt 1699939800000\<rparr>"
  have act: "actuate_route coldMorning None ?tok ''user-1'' (userTemperatureProfiles ?row)
               (DateAt 1699945200000) ?c [SelectProfiles]
             = (Inr (), [SelectProfiles, TurnOffSide ?tok ''user-1''])"
    unfolding actuate_route_def Let_def
    by (simp add: date_defs testEnabled_def callTurnOffSide_def perform_def coldMorning_fields)
  have cyc: "orThrow (createSleepCycle_route (DateAt 1699945200000) ''22:00'' ''06:00'')
               (\<lambda>sleepCycle. Inr (adjustedCycle (DateAt 1699945200000) sleepCycle)) = Inr ?c"
    using morning_cycle(2) by (simp add: cycleAt_route_def)
  have prof: "processProfile_route coldMorning None ?row [SelectProfiles]
             = (Inr (), [SelectProfiles, TurnOffSide ?tok ''user-1''])"
    using cyc unfolding processProfile_route_def Let_def
    by (cases "createSleepCycle_route (DateAt 1699945200000) ''22:00'' ''06:00''")
      (simp_all add: orThrow_def andThen_def currentInstant_def fromResult_def coldMorning_fields
        sampleProfile_fields act)
  have route: "adjustTemperature_route coldMorning None [] =
     (Inr (), [SelectProfiles, TurnOffSide ?tok ''user-1''])"
    unfolding adjustTemperature_route_def
    by (simp add: tryCatch_def andThen_def perform_def succeed_def coldMorning_fields prof)
  show ?thesis using route by (simp add: coldMorning_fields)
qed


section \<open>Retries in \<^verbatim>\<open>route.ts\<close>\<close>

text \<open>
  Claim C3 against \<^verbatim>\<open>route.ts\<close>. At 22:05 with the device off and a power-on call that
  fails once, \<^verbatim>\<open>route.ts\<close> tries the power-on a single time, and the profile's
  processing ends there with the level never set; \<^verbatim>\<open>part_000\<close> in the same world
  waits 1000 ms, tries again and sets the level.
\<close>

theorem power_on_not_retried:
  "adjustTemperature_route flakyEvening None [] =
     (Inr (), [SelectProfiles,
               GetCurrentHeatingStatus (sampleToken (DateAt 1800000000000)),
               TurnOnSide (sampleToken (DateAt 1800000000000)) ''user-1''])
   \<and> adjustTemperature flakyEvening None [] =
     (Inr (), [SelectProfiles,
               GetCurrentHeatingStatus (sampleToken (DateAt 1800000000000)),
               TurnOnSide (sampleToken (DateAt 1800000000000)) ''user-1'',
               SetTimeout 1000,
               TurnOnSide (sampleToken (DateAt 1800000000000)) ''user-1'',
               SetHeatingLevel (sampleToken (DateAt 1800000000000)) ''user-1'' 2])"
proof -
  let ?tok = "sampleToken (DateAt 1800000000000)"
  let ?c = "\<lparr>preHeatingTime = DateAt 1699995600000, bedTime = DateAt 1699999200000,
          midStageTime = DateAt 1700002800000, finalStageTime = DateAt 1700020800000,
          wakeupTime = DateAt 1700028000000, warmingTime = DateAt 1700026200000\<rparr>"
  let ?row = "sampleProfile (DateAt 1800000000000) ''22:00'' ''06:00''"
  have st: "retryApiCall (callGetCurrentHeatingStatus flakyEvening ?tok) 3 [SelectProfiles]
              = (Inr \<lparr>isHeating = False, heatingLevel = 0\<rparr>,
                 [SelectProfiles, GetCurrentHeatingStatus ?tok])"
    unfolding callGetCurrentHeatingStatus_def
    by (subst retry_first_try) (simp_all add: flakyEvening_fields)
  have act_route: "actuate_route flakyEvening None ?tok ''user-1'' (userTemperatureProfiles ?row)
          (DateAt 1699999500000) ?c [SelectProfiles]
        = (Inl (CollaboratorError ''device timeout''),
           [SelectProfiles, GetCurrentHeatingStatus ?tok, TurnOnSide ?tok ''user-1''])"
    unfolding actuate_route_def Let_def
    by (simp add: date_defs currentSleepStage_route_def chooseTarget_route_def st
        andThen_def testEnabled_def callTurnOnSide_def perform_def
        flakyEvening_fields flakyTurnOn_def isTurnOnSide_def)
  have prof_route: "processProfile_route flakyEvening None ?row [SelectProfiles]
        = (Inl (CollaboratorError ''device timeout''),
           [SelectProfiles, GetCurrentHeatingStatus ?tok, TurnOnSide ?tok ''user-1''])"
    unfolding processProfile_route_def Let_def
    by (simp add: andThen_def currentInstant_def fromResult_def flakyEvening_fields
        sampleProfile_fields evening_cycle act_route)
  have route: "adjustTemperature_route flakyEvening None [] =
     (Inr (), [SelectProfiles, GetCurrentHeatingStatus ?tok, TurnOnSide ?tok ''user-1''])"
    unfolding adjustTemperature_route_def
    by (simp add: tryCatch_def andThen_def perform_def succeed_def flakyEvening_fields prof_route)
  have on: "retryApiCall (callTurnOnSide flakyEvening ?tok ''user-1'') 3
              [SelectProfiles, GetCurrentHeatingStatus ?tok]
            = (Inr (), [SelectProfiles, GetCurrentHeatingStatus ?tok, TurnOnSide ?tok ''user-1'',
                        SetTimeout 1000, TurnOnSide ?tok ''user-1''])"
    unfolding callTurnOnSide_def
    by (subst retry_second_try [where e = "CollaboratorError ''device timeout''" and v = "()"])
      (simp_all add: flakyEvening_fields flakyTurnOn_def isTurnOnSide_def)
  have set_level: "retryApiCall (callSetHeatingLevel flakyEvening ?tok ''user-1'' 2) 3
              [SelectProfiles, GetCurrentHeatingStatus ?tok, TurnOnSide ?tok ''user-1'',
               SetTimeout 1000, TurnOnSide ?tok ''user-1'']
            = (Inr (), [SelectProfiles, GetCurrentHeatingStatus ?tok, TurnOnSide ?tok ''user-1'',
                        SetTimeout 1000, TurnOnSide ?tok ''user-1'',
                        SetHeatingLevel ?tok ''user-1'' 2])"
    unfolding callSetHeatingLevel_def
    by (subst retry_first_try) (simp_all add: flakyEvening_fields)
  have act: "actuate flakyEvening None ?tok ''user-1'' (userTemperatureProfiles ?row)
          (DateAt 1699999500000) ?c \<lparr>isHeating = False, heatingLevel = 0\<rparr>
          [SelectProfiles, GetCurrentHeatingStatus ?tok]
        = (Inr (), [SelectProfiles, GetCurrentHeatingStatus ?tok, TurnOnSide ?tok ''user-1'',
                    SetTimeout 1000, TurnOnSide ?tok ''user-1'',
                    SetHeatingLevel ?tok ''user-1'' 2])"
    unfolding actuate_def Let_def
    by (simp add: date_defs nearAnyBoundary_def chooseTarget_def sampleProfile_fields
        andThen_def testEnabled_def on set_level)
  have prof: "processProfile flakyEvening None ?row [SelectProfiles]
        = (Inr (), [SelectProfiles, GetCurrentHeatingStatus ?tok, TurnOnSide ?tok ''user-1'',
                    SetTimeout 1000, TurnOnSide ?tok ''user-1'',
                    SetHeatingLevel ?tok ''user-1'' 2])"
    unfolding processProfile_def Let_def
    by (simp add: andThen_def currentInstant_def fromResult_def flakyEvening_fields
        sampleProfile_fields evening_cycle refreshToken_def readHeatingStatus_def testEnabled_def
        succeed_def dateGreater_def dateLess_def st act)
  have part0: "adjustTemperature flakyEvening None [] =
     (Inr (), [SelectProfiles, GetCurrentHeatingStatus ?tok, TurnOnSide ?tok ''user-1'',
               SetTimeout 1000, TurnOnSide ?tok ''user-1'', SetHeatingLevel ?tok ''user-1'' 2])"
    unfolding adjustTemperature_def
    by (simp add: tryCatch_def andThen_def perform_def succeed_def flakyEvening_fields prof)
  show ?thesis using route part0 by simp
qed

section \<open>Failures of the profile query\<close>

text \<open>
  In every version an error thrown while one profile is processed is caught at that
  profile: the loop goes on with the next profile from the calls made so far and never
  throws. \<^verbatim>\<open>part_000\<close> and \<^verbatim>\<open>part_002\<close> fail exactly when the profile query fails,
  and the endpoint of \<^verbatim>\<open>part_000\<close> then answers 500; \<^verbatim>\<open>part_001\<close> and \<^verbatim>\<open>route.ts\<close>
  never fail.
\<close>

lemma guarded_step:
  "tryCatch (body q) (\<lambda>e. succeed ()) tr = (Inr (), snd (body q tr))"
  by (cases "body q tr"; cases "fst (body q tr)") (simp_all add: tryCatch_def succeed_def)

lemma forEachProfile_contained:
  "fst (forEachProfile (\<lambda>profile. tryCatch (body profile) (\<lambda>e. succeed ())) profiles tr) = Inr ()"
  "forEachProfile (\<lambda>profile. tryCatch (body profile) (\<lambda>e. succeed ())) (p # profiles) tr
     = forEachProfile (\<lambda>profile. tryCatch (body profile) (\<lambda>e. succeed ())) profiles
         (snd (body p tr))"
proof -
  show "forEachProfile (\<lambda>profile. tryCatch (body profile) (\<lambda>e. succeed ())) (p # profiles) tr
     = forEachProfile (\<lambda>profile. tryCatch (body profile) (\<lambda>e. succeed ())) profiles
         (snd (body p tr))"
    by (simp add: andThen_def guarded_step)
  show "fst (forEachProfile (\<lambda>profile. tryCatch (body profile) (\<lambda>e. succeed ())) profiles tr)
          = Inr ()"
  proof (induction profiles arbitrary: tr)
    case Nil
    show ?case by (simp add: succeed_def)
  next
    case (Cons q qs)
    show ?case using Cons.IH by (simp add: andThen_def guarded_step)
  qed
qed

lemma guarded_run_cases:
  obtains (fetch_failed) e where "selectProfiles w tr = Inl e"
      "andThen (perform SelectProfiles (selectProfiles w))
         (\<lambda>profiles. forEachProfile
            (\<lambda>profile. tryCatch (body profile) (\<lambda>e. succeed ())) profiles) tr
       = (Inl e, tr @ [SelectProfiles])"
  | (looped) profiles tr' where "selectProfiles w tr = Inr profiles"
      "andThen (perform SelectProfiles (selectProfiles w))
         (\<lambda>profiles. forEachProfile
            (\<lambda>profile. tryCatch (body profile) (\<lambda>e. succeed ())) profiles) tr
       = (Inr (), tr')"
proof (cases "selectProfiles w tr")
  case (Inl e)
  then show ?thesis by (intro fetch_failed [of e]) (simp_all add: andThen_def perform_def)
next
  case (Inr profiles)
  obtain r tr' where l: "forEachProfile
      (\<lambda>profile. tryCatch (body profile) (\<lambda>e. succeed ())) profiles (tr @ [SelectProfiles])
      = (r, tr')" by (meson prod.exhaust)
  with forEachProfile_contained(1) [of body profiles "tr @ [SelectProfiles]"]
  have "r = Inr ()" by simp
  with l Inr show ?thesis by (intro looped [of profiles tr']) (simp_all add: andThen_def perform_def)
qed

lemma run_fails_iff_fetch_fails:
  "(fst (adjustTemperature w testMode tr) = Inl e) = (selectProfiles w tr = Inl e)"
  "(fst (adjustTemperature_p2 w testMode tr) = Inl e) = (selectProfiles w tr = Inl e)"
  "fst (adjustTemperature_p1 w testMode tr) = Inr ()"
  "fst (adjustTemperature_route w testMode tr) = Inr ()"
proof -
  define loop where "loop body = andThen (perform SelectProfiles (selectProfiles w))
         (\<lambda>profiles. forEachProfile
            (\<lambda>profile. tryCatch (body profile) (\<lambda>e. succeed ())) profiles)"
    for body :: "profileRow \<Rightarrow> unit action"
  note cases = guarded_run_cases [of w tr, folded loop_def]
  have run: "adjustTemperature w testMode
               = tryCatch (loop (processProfile w testMode)) (\<lambda>error. throw error)"
    "adjustTemperature_p2 w testMode = loop (processProfile_p2 w testMode)"
    "adjustTemperature_p1 w testMode
       = tryCatch (loop (processProfile_p1 w testMode)) (\<lambda>error. succeed ())"
    "adjustTemperature_route w testMode
       = tryCatch (loop (processProfile_route w testMode)) (\<lambda>error. succeed ())"
    unfolding adjustTemperature_def adjustTemperature_p2_def adjustTemperature_p1_def
      adjustTemperature_route_def loop_def by (rule refl)+
  show "(fst (adjustTemperature w testMode tr) = Inl e) = (selectProfiles w tr = Inl e)"
    by (cases rule: cases [of "processProfile w testMode"])
      (simp_all add: run tryCatch_def throw_def)
  show "(fst (adjustTemperature_p2 w testMode tr) = Inl e) = (selectProfiles w tr = Inl e)"
    by (cases rule: cases [of "processProfile_p2 w testMode"]) (simp_all add: run)
  show "fst (adjustTemperature_p1 w testMode tr) = Inr ()"
    by (cases rule: cases [of "processProfile_p1 w testMode"])
      (simp_all add: run tryCatch_def succeed_def)
  show "fst (adjustTemperature_route w testMode tr) = Inr ()"
    by (cases rule: cases [of "processProfile_route w testMode"])
      (simp_all add: run tryCatch_def succeed_def)
qed

lemma endpoint_reports_fetch_failure:
  assumes "isAuthorized cronSecret req"
  shows "(fst (GET w cronSecret req tr) = Inr InternalServerError)
           = (\<exists>e. selectProfiles w tr = Inl e)"
    and "(fst (GET w cronSecret req tr) = Inr SuccessJson)
           = (\<exists>profiles. selectProfiles w tr = Inr profiles)"
proof -
  obtain r tr' where run: "adjustTemperature w (testModeOf req) tr = (r, tr')"
    by (meson prod.exhaust)
  have fail: "(r = Inl e) = (selectProfiles w tr = Inl e)" for e
    using run_fails_iff_fetch_fails(1) [of w "testModeOf req" tr e] by (simp add: run)
  have get: "fst (GET w cronSecret req tr)
               = Inr (case r of Inl e \<Rightarrow> InternalServerError | Inr u \<Rightarrow> SuccessJson)"
    using assms
    by (cases r) (simp_all add: GET_def tryCatch_def andThen_def succeed_def run)
  show "(fst (GET w cronSecret req tr) = Inr InternalServerError)
           = (\<exists>e. selectProfiles w tr = Inl e)"
  proof (cases r)
    case (Inl e)
    with fail [of e] show ?thesis by (simp add: get)
  next
    case (Inr u)
    have "selectProfiles w tr \<noteq> Inl e" for e using fail [of e] Inr by simp
    then show ?thesis by (simp add: get Inr)
  qed
  show "(fst (GET w cronSecret req tr) = Inr SuccessJson)
           = (\<exists>profiles. selectProfiles w tr = Inr profiles)"
  proof (cases r)
    case (Inl e)
    with fail [of e] show ?thesis by (simp add: get)
  next
    case (Inr u)
    have "selectProfiles w tr \<noteq> Inl e" for e using fail [of e] Inr by simp
    then have "\<exists>profiles. selectProfiles w tr = Inr profiles"
      by (cases "selectProfiles w tr") auto
    then show ?thesis by (simp add: get Inr)
  qed
qed

text \<open>
  Claim C8 against \<^verbatim>\<open>part_001\<close> and \<^verbatim>\<open>route.ts\<close>. When the profile query fails,
  their \<^verbatim>\<open>adjustTemperature\<close> returns normally and the endpoint answers success;
  \<^verbatim>\<open>part_000\<close> throws the error again and its endpoint answers 500.
\<close>

theorem fetch_failure_swallowed:
  "adjustTemperature_p1 databaseDown None [] = (Inr (), [SelectProfiles])
   \<and> GET_p1 databaseDown (Some ''secret'')
        \<lparr>authorization = Some ''Bearer secret'', testTimeParam = None\<rparr> []
       = (Inr SuccessJson, [SelectProfiles])
   \<and> adjustTemperature_route databaseDown None [] = (Inr (), [SelectProfiles])
   \<and> GET_route databaseDown (Some ''secret'')
        \<lparr>authorization = Some ''Bearer secret'', testTimeParam = None\<rparr> []
       = (Inr SuccessJson, [SelectProfiles])
   \<and> adjustTemperature databaseDown None []
       = (Inl (CollaboratorError ''connection refused''), [SelectProfiles])
   \<and> GET databaseDown (Some ''secret'')
        \<lparr>authorization = Some ''Bearer secret'', testTimeParam = None\<rparr> []
       = (Inr InternalServerError, [SelectProfiles])"
proof -
  have p1: "adjustTemperature_p1 databaseDown None [] = (Inr (), [SelectProfiles])"
    by (simp add: adjustTemperature_p1_def tryCatch_def andThen_def perform_def succeed_def
        databaseDown_fields failingSelect_def)
  have r: "adjustTemperature_route databaseDown None [] = (Inr (), [SelectProfiles])"
    by (simp add: adjustTemperature_route_def tryCatch_def andThen_def perform_def succeed_def
        databaseDown_fields failingSelect_def)
  have p0: "adjustTemperature databaseDown None []
       = (Inl (CollaboratorError ''connection refused''), [SelectProfiles])"
    by (simp add: adjustTemperature_def tryCatch_def andThen_def perform_def throw_def
        databaseDown_fields failingSelect_def)
  have tm: "testModeOf \<lparr>authorization = Some ''Bearer secret'', testTimeParam = None\<rparr> = None"
    by (simp add: testModeOf_def)
  have au: "isAuthorized (Some ''secret'')
              \<lparr>authorization = Some ''Bearer secret'', testTimeParam = None\<rparr>"
    by (simp add: isAuthorized_def)
  show ?thesis
    by (simp add: GET_def GET_p1_def GET_route_def au tm p0 p1 r tryCatch_def andThen_def
        succeed_def)
qed

section \<open>Targets\<close>




end
